theory Spec2Isabelle
  imports Main "HOL-Library.Char_ord" "HOL-Library.List_Lexorder"
begin

section \<open>Go values and library operations used by the providers\<close>

text \<open>
  A Go \<^verbatim>\<open>string\<close> is a sequence of bytes: \<^verbatim>\<open>len(s)\<close> counts bytes and \<^verbatim>\<open>s[0:n]\<close>
  cuts bytes. It is modelled by \<^typ>\<open>string\<close>, a list of 8-bit characters, with
  \<^const>\<open>length\<close> for \<^verbatim>\<open>len\<close>. The comparison \<^verbatim>\<open><\<close> of Go strings, which
  \<^verbatim>\<open>sort.Strings\<close> uses, is the byte-wise lexicographic order; it is the order of
  \<^typ>\<open>string\<close> given by the library theories \<open>Char_ord\<close> and \<open>List_Lexorder\<close>
  (lemma \<open>string_less_iff\<close> below).

  A run-time panic (index out of range, slice bounds out of range, a method call
  on a nil interface) is the outcome \<open>Panics\<close>.
\<close>

datatype 'a outcome = Returns 'a | Panics

fun bind_outcome :: "'a outcome \<Rightarrow> ('a \<Rightarrow> 'b outcome) \<Rightarrow> 'b outcome" where
  "bind_outcome Panics f = Panics"
| "bind_outcome (Returns x) f = f x"

text \<open>The slice expression \<^verbatim>\<open>s[0:n]\<close> of a string.\<close>

definition slice_to :: "string \<Rightarrow> nat \<Rightarrow> string outcome" where
  "slice_to s n = (if n \<le> length s then Returns (take n s) else Panics)"

text \<open>The comparison \<^verbatim>\<open>a < b\<close> of two Go strings, byte by byte.\<close>

fun string_less :: "string \<Rightarrow> string \<Rightarrow> bool" where
  "string_less [] [] = False"
| "string_less [] (b # bs) = True"
| "string_less (a # as) [] = False"
| "string_less (a # as) (b # bs) =
     ((of_char a :: nat) < of_char b \<or> (of_char a :: nat) = of_char b \<and> string_less as bs)"

subsection \<open>Errors\<close>

text \<open>
  Modelled from the spec: \<^verbatim>\<open>stddata.ServiceError\<close> is declared in the parent package
  \<^verbatim>\<open>github.com/musicbeat/stddata\<close>, which is not among the sources. The providers build
  it as \<^verbatim>\<open>&stddata.ServiceError{msg, code}\<close>: a human-readable message and an HTTP
  status, the "error kind" of the specification. \<open>errorString\<close> is the error made by
  \<^verbatim>\<open>errors.New\<close>, which carries a message only.
\<close>

datatype error = ServiceError string nat | errorString string

definition StatusBadRequest :: nat where
  "StatusBadRequest = 400"

definition StatusServiceUnavailable :: nat where
  "StatusServiceUnavailable = 503"

text \<open>
  The method call \<^verbatim>\<open>err.Error()\<close> on a value of the interface type \<^verbatim>\<open>error\<close>:
  on the nil interface it is a nil dereference, a run-time panic.
\<close>

fun error_Error :: "error option \<Rightarrow> string outcome" where
  "error_Error None = Panics"
| "error_Error (Some (ServiceError msg code)) = Returns msg"
| "error_Error (Some (errorString msg)) = Returns msg"

subsection \<open>\<^verbatim>\<open>strings.EqualFold\<close>\<close>

text \<open>
  \<^verbatim>\<open>strings.EqualFold(s, t)\<close> belongs to Go's standard library. It decodes both
  strings rune by rune as UTF-8, an invalid byte giving \<^verbatim>\<open>utf8.RuneError\<close> of width 1,
  and compares the runes under Unicode simple case folding. Two different runes
  that are both ASCII are equal exactly when they are the upper and the lower case
  of one letter. For any other pair the library walks the orbit of
  \<^verbatim>\<open>unicode.SimpleFold\<close>; the Unicode table is not part of the repository, so the
  result of that walk is the parameter \<open>orbit\<close> (\<open>orbit sr tr\<close> for \<open>sr < tr\<close>).
\<close>

type_synonym rune = nat

definition RuneError :: rune where
  "RuneError = 0xFFFD"

definition RuneSelf :: nat where
  "RuneSelf = 0x80"

fun DecodeRuneInString :: "string \<Rightarrow> rune \<times> nat" where
  "DecodeRuneInString [] = (RuneError, 0)"
| "DecodeRuneInString (c # cs) =
    (let s0 = of_char c :: nat in
     if s0 < RuneSelf then (s0, 1)
     else if s0 < 0xC2 \<or> 0xF4 < s0 then (RuneError, 1)
     else
       let sz = (if s0 < 0xE0 then 2 else if s0 < 0xF0 then 3 else 4) :: nat;
           lo = (if s0 = 0xE0 then 0xA0 else if s0 = 0xF0 then 0x90 else 0x80) :: nat;
           hi = (if s0 = 0xED then 0x9F else if s0 = 0xF4 then 0x8F else 0xBF) :: nat
       in
       if Suc (length cs) < sz then (RuneError, 1)
       else
         let s1 = of_char (cs ! 0) :: nat in
         if s1 < lo \<or> hi < s1 then (RuneError, 1)
         else if sz \<le> 2 then ((s0 mod 0x20) * 0x40 + s1 mod 0x40, 2)
         else
           let s2 = of_char (cs ! 1) :: nat in
           if s2 < 0x80 \<or> 0xBF < s2 then (RuneError, 1)
           else if sz \<le> 3 then
             ((s0 mod 0x10) * 0x1000 + (s1 mod 0x40) * 0x40 + s2 mod 0x40, 3)
           else
             let s3 = of_char (cs ! 2) :: nat in
             if s3 < 0x80 \<or> 0xBF < s3 then (RuneError, 1)
             else ((s0 mod 8) * 0x40000 + (s1 mod 0x40) * 0x1000
                     + (s2 mod 0x40) * 0x40 + s3 mod 0x40, 4))"

definition fold_rune :: "(rune \<Rightarrow> rune \<Rightarrow> bool) \<Rightarrow> rune \<Rightarrow> rune \<Rightarrow> bool" where
  "fold_rune orbit r1 r2 =
    (if r1 = r2 then True
     else
       let sr = min r1 r2; tr = max r1 r2 in
       if tr < RuneSelf then of_char CHR ''A'' \<le> sr \<and> sr \<le> of_char CHR ''Z''
                               \<and> tr = sr + of_char CHR ''a'' - of_char CHR ''A''
       else orbit sr tr)"

function EqualFold :: "(rune \<Rightarrow> rune \<Rightarrow> bool) \<Rightarrow> string \<Rightarrow> string \<Rightarrow> bool" where
  "EqualFold orbit [] t = (t = [])"
| "EqualFold orbit (c # s) [] = False"
| "EqualFold orbit (c # s) (d # t) =
    (fold_rune orbit (fst (DecodeRuneInString (c # s))) (fst (DecodeRuneInString (d # t)))
     \<and> EqualFold orbit (drop (snd (DecodeRuneInString (c # s))) (c # s))
                           (drop (snd (DecodeRuneInString (d # t))) (d # t)))"
  by pat_completeness auto
termination
proof (relation "measure (\<lambda>(orbit, s, t). length s)")
  show "wf (measure (\<lambda>(orbit, s, t). length s))"
    by simp
next
  fix orbit :: "rune \<Rightarrow> rune \<Rightarrow> bool" and c :: char and s :: string and d :: char and t :: string
  have "0 < snd (DecodeRuneInString (c # s))"
    by (simp add: Let_def)
  then show "((orbit, drop (snd (DecodeRuneInString (c # s))) (c # s),
                drop (snd (DecodeRuneInString (d # t))) (d # t)), orbit, c # s, d # t)
             \<in> measure (\<lambda>(orbit, s, t). length s)"
    by simp
qed

subsection \<open>Maps, \<^verbatim>\<open>range\<close> and \<^verbatim>\<open>sort.Strings\<close>\<close>

text \<open>
  A Go map \<^verbatim>\<open>map[string][]E\<close> is a finite map from strings to lists.
  The index expression \<^verbatim>\<open>m[k]\<close> gives the zero value, the nil slice, for an absent
  key, and \<^verbatim>\<open>len(m)\<close> is the number of keys.
\<close>

definition map_index :: "(string \<rightharpoonup> 'e list) \<Rightarrow> string \<Rightarrow> 'e list" where
  "map_index m k = (case m k of None \<Rightarrow> [] | Some v \<Rightarrow> v)"

definition len_map :: "(string \<rightharpoonup> 'e list) \<Rightarrow> nat" where
  "len_map m = card (dom m)"

text \<open>
  A variable of a map type is nil until \<^verbatim>\<open>make\<close> has given it a map. Reading a nil
  map is reading an empty one, but the assignment \<^verbatim>\<open>m[k] = v\<close> to an entry of a nil
  map panics. The maps of entities are written only in the loop of \<^verbatim>\<open>Load\<close>, which
  has made them before, so the finite map alone models them. The map of indexes of a
  provider is nil in a new provider and is written by \<^verbatim>\<open>storeData\<close>; its model says
  whether it has been made: \<open>None\<close> is the nil map, \<open>Some f\<close> a map with the entries
  \<open>f\<close>. \<open>map_lookup\<close> is the form \<^verbatim>\<open>v, found := m[k]\<close> and \<open>map_assign\<close> the
  assignment \<^verbatim>\<open>m[k] = v\<close>.
\<close>

definition map_lookup :: "(string \<rightharpoonup> 'v) option \<Rightarrow> string \<Rightarrow> 'v option" where
  "map_lookup m k = (case m of None \<Rightarrow> None | Some f \<Rightarrow> f k)"

definition map_assign ::
  "(string \<rightharpoonup> 'v) option \<Rightarrow> string \<Rightarrow> 'v \<Rightarrow> (string \<rightharpoonup> 'v) option outcome" where
  "map_assign m k v = (case m of None \<Rightarrow> Panics | Some f \<Rightarrow> Returns (Some (f(k \<mapsto> v))))"

text \<open>
  \<^verbatim>\<open>for k := range m\<close> visits every key of the map once, in an order that the
  Go runtime chooses and that differs from run to run. The order is the parameter
  \<open>rk\<close> of the model: \<open>rk m\<close> is the sequence of keys that the loop over \<open>m\<close>
  sees, and \<open>map_range rk\<close> says that it is an enumeration of the keys.
\<close>

definition map_range :: "((string \<rightharpoonup> 'e list) \<Rightarrow> string list) \<Rightarrow> bool" where
  "map_range rk \<longleftrightarrow> (\<forall>m. finite (dom m) \<longrightarrow> distinct (rk m) \<and> set (rk m) = dom m)"

text \<open>\<^verbatim>\<open>sort.Strings\<close> sorts a slice of strings in increasing order.\<close>

definition sort_Strings :: "string list \<Rightarrow> string list" where
  "sort_Strings a = sort a"

text \<open>
  A \<^verbatim>\<open>for\<close> loop over the indices \<open>ks\<close> whose body may panic; \<open>st\<close> holds the
  variables that the body assigns.
\<close>

fun for_range :: "(nat \<Rightarrow> 's \<Rightarrow> 's outcome) \<Rightarrow> nat list \<Rightarrow> 's \<Rightarrow> 's outcome" where
  "for_range body [] st = Returns st"
| "for_range body (k # ks) st = bind_outcome (body k st) (for_range body ks)"

section \<open>The providers\<close>

text \<open>
  The packages \<^verbatim>\<open>country\<close> and \<^verbatim>\<open>language\<close> declare the same three structures
  and the functions \<^verbatim>\<open>storeData\<close> and \<^verbatim>\<open>doSearch\<close> twice, word for word up to the
  type of the entity. The model has one copy, polymorphic in the entity \<open>'e\<close>:
  \<open>entityMap\<close> and \<open>entityKeys\<close> are \<^verbatim>\<open>countryMap\<close>, \<^verbatim>\<open>countryKeys\<close> and
  \<^verbatim>\<open>languageMap\<close>, \<^verbatim>\<open>languageKeys\<close>; \<open>entityIndexes\<close> is \<^verbatim>\<open>countryIndexes\<close> and
  \<^verbatim>\<open>languageIndexes\<close>.
\<close>

record Country =
  EnglishName :: string
  Alpha2Code :: string
  Alpha3Code :: string
  NumericCode :: string

record Language =
  Alpha3bibliographic :: string
  Alpha3terminologic :: string
  Alpha2 :: string
  EnglishName :: string
  FrenchName :: string

record 'e index =
  entityMap :: "string \<rightharpoonup> 'e list"
  entityKeys :: "string list"

record 'e provider =
  loaded :: bool
  size :: nat
  entityIndexes :: "(string \<rightharpoonup> 'e index) option"

type_synonym CountryProvider = "Country provider"
type_synonym LanguageProvider = "Language provider"

text \<open>\<^verbatim>\<open>new(CountryProvider)\<close>: every field has its zero value, the map is nil.\<close>

definition new_provider :: "'e provider" where
  "new_provider = \<lparr>loaded = False, size = 0, entityIndexes = None\<rparr>"

subsection \<open>\<^verbatim>\<open>storeData\<close>\<close>

text \<open>
  The loop \<^verbatim>\<open>for k, _ := range m { keys[i] = k; i++ }\<close> over the keys \<open>ks\<close> in the order
  of the runtime; the assignment to \<^verbatim>\<open>keys[i]\<close> panics when \<open>i\<close> is out of range.
  The last statement of \<^verbatim>\<open>storeData\<close>, \<^verbatim>\<open>p.countryIndexes[s] = ci\<close>, panics when the
  map of indexes is nil.
\<close>

fun storeData_keys :: "string list \<Rightarrow> string list \<times> nat \<Rightarrow> (string list \<times> nat) outcome" where
  "storeData_keys [] (keys, i) = Returns (keys, i)"
| "storeData_keys (k # ks) (keys, i) =
    (if i < length keys then storeData_keys ks (keys[i := k], i + 1) else Panics)"

definition storeData ::
  "((string \<rightharpoonup> 'e list) \<Rightarrow> string list) \<Rightarrow> 'e provider \<Rightarrow> string \<Rightarrow> (string \<rightharpoonup> 'e list)
     \<Rightarrow> 'e provider outcome" where
  "storeData rk p s m =
    bind_outcome (storeData_keys (rk m) (replicate (len_map m) [], 0)) (\<lambda>(keys, i).
      bind_outcome
        (map_assign (entityIndexes p) s \<lparr>entityMap = m, entityKeys = sort_Strings keys\<rparr>)
        (\<lambda>indexes. Returns (p\<lparr>entityIndexes := indexes\<rparr>)))"

subsection \<open>\<^verbatim>\<open>doSearch\<close> and \<^verbatim>\<open>Search\<close>\<close>

text \<open>
  The body of the loop \<^verbatim>\<open>for k := range ci.countryKeys\<close> of \<^verbatim>\<open>doSearch\<close>, on the
  variables \<^verbatim>\<open>tmp\<close> and \<^verbatim>\<open>i\<close>.
\<close>

definition doSearch_body ::
  "(rune \<Rightarrow> rune \<Rightarrow> bool) \<Rightarrow> 'e index \<Rightarrow> string \<Rightarrow> nat \<Rightarrow> 'e list list \<times> nat
     \<Rightarrow> ('e list list \<times> nat) outcome" where
  "doSearch_body orbit ci query k st =
    (case st of (tmp, i) \<Rightarrow>
      let dump = (query = ''_dump'') in
      if \<not> k < length (entityKeys ci) then Panics
      else if dump then
        (if i < length tmp
         then Returns (tmp[i := map_index (entityMap ci) (entityKeys ci ! k)], i + 1)
         else Panics)
      else if length (entityKeys ci ! k) \<ge> length query then
        bind_outcome (slice_to (entityKeys ci ! k) (length query)) (\<lambda>pre.
          if EqualFold orbit query pre then
            (if i < length tmp
             then Returns (tmp[i := map_index (entityMap ci) (entityKeys ci ! k)], i + 1)
             else Panics)
          else Returns (tmp, i))
      else Returns (tmp, i))"

definition doSearch :: "(rune \<Rightarrow> rune \<Rightarrow> bool) \<Rightarrow> 'e index \<Rightarrow> string \<Rightarrow> 'e list list outcome" where
  "doSearch orbit ci query =
    bind_outcome
      (for_range (doSearch_body orbit ci query) [0 ..< length (entityKeys ci)]
         (replicate (length (entityKeys ci)) [], 0))
      (\<lambda>(tmp, i). if i \<le> length tmp then Returns (take i tmp) else Panics)"

text \<open>
  \<^verbatim>\<open>Search\<close> returns the pair \<^verbatim>\<open>(result, err)\<close>; \<open>None\<close> is \<^verbatim>\<open>nil\<close> in both places.
\<close>

definition CountryProvider_Search ::
  "(rune \<Rightarrow> rune \<Rightarrow> bool) \<Rightarrow> CountryProvider \<Rightarrow> string \<Rightarrow> string
     \<Rightarrow> (Country list list option \<times> error option) outcome" where
  "CountryProvider_Search orbit p index query =
    (if loaded p \<noteq> True then
       Returns (None, Some (errorString
         ''this should be a 503 Service Unavailable by the time it gets to the client''))
     else
       case map_lookup (entityIndexes p) index of
         None \<Rightarrow> Returns (None, Some (ServiceError (''No index on '' @ index) StatusBadRequest))
       | Some ci \<Rightarrow> bind_outcome (doSearch orbit ci query) (\<lambda>result. Returns (Some result, None)))"

text \<open>
  In \<^verbatim>\<open>LanguageProvider.Search\<close> the branch for a provider that is not loaded calls
  \<^verbatim>\<open>err.Error()\<close> on the named result \<^verbatim>\<open>err\<close>, which is still nil there.
\<close>

definition LanguageProvider_Search ::
  "(rune \<Rightarrow> rune \<Rightarrow> bool) \<Rightarrow> LanguageProvider \<Rightarrow> string \<Rightarrow> string
     \<Rightarrow> (Language list list option \<times> error option) outcome" where
  "LanguageProvider_Search orbit p index query =
    (let err = None in
     if loaded p \<noteq> True then
       bind_outcome (error_Error err) (\<lambda>msg.
         Returns (None, Some (ServiceError msg StatusServiceUnavailable)))
     else
       case map_lookup (entityIndexes p) index of
         None \<Rightarrow> Returns (None, Some (ServiceError (''No index on '' @ index) StatusBadRequest))
       | Some li \<Rightarrow> bind_outcome (doSearch orbit li query) (\<lambda>result. Returns (Some result, None)))"

subsection \<open>\<^verbatim>\<open>Load\<close>\<close>

text \<open>
  The \<^verbatim>\<open>csv.Reader\<close> is a collaborator. What it reads is a list of items: a parsed
  line with its fields, or a failure of the parser or of the stream with its message.
  The end of the list is \<^verbatim>\<open>io.EOF\<close>. With \<^verbatim>\<open>FieldsPerRecord = n\<close> the call
  \<^verbatim>\<open>reader.Read()\<close> answers a line that does not have \<open>n\<close> fields with the error
  \<^verbatim>\<open>csv.ErrFieldCount\<close>.
\<close>

datatype csv_item = Row "string list" | Fail string

datatype read_result = Record "string list" | EOF | ReadError string

definition ErrFieldCount :: string where
  "ErrFieldCount = ''wrong number of fields in line''"

fun reader_Read :: "nat \<Rightarrow> csv_item list \<Rightarrow> read_result \<times> csv_item list" where
  "reader_Read n [] = (EOF, [])"
| "reader_Read n (Fail msg # rest) = (ReadError msg, rest)"
| "reader_Read n (Row flds # rest) =
    (if length flds = n then (Record flds, rest) else (ReadError ErrFieldCount, rest))"

text \<open>
  The package-level variables of package \<^verbatim>\<open>country\<close>. \<^verbatim>\<open>Load\<close> makes them anew,
  fills them in its loop, and hands them to \<^verbatim>\<open>storeData\<close>; no other function reads
  them.
\<close>

record country_vars =
  englishNameMap :: "string \<rightharpoonup> Country list"
  alpha2Map :: "string \<rightharpoonup> Country list"
  alpha3Map :: "string \<rightharpoonup> Country list"
  numericMap :: "string \<rightharpoonup> Country list"

text \<open>The statement \<^verbatim>\<open>m[k] = append(m[k], c)\<close>.\<close>

definition map_append :: "(string \<rightharpoonup> 'e list) \<Rightarrow> string \<Rightarrow> 'e \<Rightarrow> (string \<rightharpoonup> 'e list)" where
  "map_append m k c = m(k \<mapsto> map_index m k @ [c])"

text \<open>
  The loop of \<^verbatim>\<open>CountryProvider.Load\<close>. It ends with \<open>None\<close> at \<^verbatim>\<open>io.EOF\<close>
  (\<^verbatim>\<open>break\<close>) and with the error that \<^verbatim>\<open>Load\<close> returns at once otherwise.
\<close>

function CountryProvider_Load_loop ::
  "csv_item list \<Rightarrow> country_vars \<Rightarrow> error option \<times> country_vars" where
  "CountryProvider_Load_loop reader g =
    (case reader_Read 4 reader of
       (EOF, reader') \<Rightarrow> (None, g)
     | (ReadError msg, reader') \<Rightarrow> (Some (ServiceError msg StatusServiceUnavailable), g)
     | (Record record, reader') \<Rightarrow>
         (let c = \<lparr>Country.EnglishName = record ! 0, Alpha2Code = record ! 1,
                   Alpha3Code = record ! 2, NumericCode = record ! 3\<rparr>
          in CountryProvider_Load_loop reader'
               (g\<lparr>englishNameMap := map_append (englishNameMap g) (Country.EnglishName c) c,
                  alpha2Map := map_append (alpha2Map g) (Alpha2Code c) c,
                  alpha3Map := map_append (alpha3Map g) (Alpha3Code c) c,
                  numericMap := map_append (numericMap g) (NumericCode c) c\<rparr>)))"
  by pat_completeness auto
termination
proof (relation "measure (\<lambda>(reader, g). length reader)")
  show "wf (measure (\<lambda>(reader, g). length reader))"
    by simp
next
  fix reader :: "csv_item list" and g :: country_vars and x :: read_result
    and reader' :: "csv_item list" and flds :: "string list" and c :: Country
  assume "(x, reader') = reader_Read 4 reader" and "x = Record flds"
  then have "length reader' < length reader"
  proof (cases reader)
    case Nil
    with \<open>(x, reader') = reader_Read 4 reader\<close> \<open>x = Record flds\<close> show ?thesis
      by simp
  next
    case (Cons item rest)
    with \<open>(x, reader') = reader_Read 4 reader\<close> \<open>x = Record flds\<close> show ?thesis
      by (cases item) (auto split: if_splits)
  qed
  then show "((reader', g\<lparr>englishNameMap := map_append (englishNameMap g) (Country.EnglishName c) c,
                  alpha2Map := map_append (alpha2Map g) (Alpha2Code c) c,
                  alpha3Map := map_append (alpha3Map g) (Alpha3Code c) c,
                  numericMap := map_append (numericMap g) (NumericCode c) c\<rparr>), reader, g)
             \<in> measure (\<lambda>(reader, g). length reader)"
    by simp
qed

text \<open>
  \<^verbatim>\<open>CountryProvider.Load\<close> on the provider \<open>p\<close> and the package variables \<open>g\<close>;
  \<open>countrydata\<close> is what the reader over the embedded data yields. The result is
  the pair \<^verbatim>\<open>(n, err)\<close> with the provider and the variables as \<^verbatim>\<open>Load\<close> leaves them.
\<close>

fun CountryProvider_Load ::
  "((string \<rightharpoonup> Country list) \<Rightarrow> string list) \<Rightarrow> csv_item list \<Rightarrow> CountryProvider \<times> country_vars
     \<Rightarrow> ((nat \<times> error option) \<times> CountryProvider \<times> country_vars) outcome" where
  "CountryProvider_Load rk countrydata (p, g) =
     (let p0 = p\<lparr>entityIndexes := Some Map.empty\<rparr>;
          g0 = g\<lparr>englishNameMap := Map.empty, alpha2Map := Map.empty,
                 alpha3Map := Map.empty, numericMap := Map.empty\<rparr>
      in
      case CountryProvider_Load_loop countrydata g0 of
        (Some e, g1) \<Rightarrow> Returns ((0, Some e), p0, g1)
      | (None, g1) \<Rightarrow>
          bind_outcome (storeData rk p0 ''name'' (englishNameMap g1)) (\<lambda>p1.
          bind_outcome (storeData rk p1 ''alpha2'' (alpha2Map g1)) (\<lambda>p2.
          bind_outcome (storeData rk p2 ''alpha3'' (alpha3Map g1)) (\<lambda>p3.
          bind_outcome (storeData rk p3 ''number'' (numericMap g1)) (\<lambda>p4.
            Returns ((len_map (englishNameMap g1), None),
                     p4\<lparr>size := len_map (englishNameMap g1), loaded := True\<rparr>, g1))))))"

text \<open>The package-level variables of package \<^verbatim>\<open>language\<close>.\<close>

record language_vars =
  alphaMap :: "string \<rightharpoonup> Language list"
  englishNameMap :: "string \<rightharpoonup> Language list"

function LanguageProvider_Load_loop ::
  "csv_item list \<Rightarrow> language_vars \<Rightarrow> error option \<times> language_vars" where
  "LanguageProvider_Load_loop reader g =
    (case reader_Read 5 reader of
       (EOF, reader') \<Rightarrow> (None, g)
     | (ReadError msg, reader') \<Rightarrow> (Some (ServiceError msg StatusServiceUnavailable), g)
     | (Record record, reader') \<Rightarrow>
         (let l = \<lparr>Alpha3bibliographic = record ! 0, Alpha3terminologic = record ! 1,
                   Alpha2 = record ! 2, Language.EnglishName = record ! 3,
                   FrenchName = record ! 4\<rparr>
          in LanguageProvider_Load_loop reader'
               (g\<lparr>alphaMap := map_append (alphaMap g) (Alpha3bibliographic l) l,
                  language_vars.englishNameMap :=
                    map_append (language_vars.englishNameMap g) (Language.EnglishName l) l\<rparr>)))"
  by pat_completeness auto
termination
proof (relation "measure (\<lambda>(reader, g). length reader)")
  show "wf (measure (\<lambda>(reader, g). length reader))"
    by simp
next
  fix reader :: "csv_item list" and g :: language_vars and x :: read_result
    and reader' :: "csv_item list" and flds :: "string list" and l :: Language
  assume "(x, reader') = reader_Read 5 reader" and "x = Record flds"
  then have "length reader' < length reader"
  proof (cases reader)
    case Nil
    with \<open>(x, reader') = reader_Read 5 reader\<close> \<open>x = Record flds\<close> show ?thesis
      by simp
  next
    case (Cons item rest)
    with \<open>(x, reader') = reader_Read 5 reader\<close> \<open>x = Record flds\<close> show ?thesis
      by (cases item) (auto split: if_splits)
  qed
  then show "((reader', g\<lparr>alphaMap := map_append (alphaMap g) (Alpha3bibliographic l) l,
                  language_vars.englishNameMap :=
                    map_append (language_vars.englishNameMap g) (Language.EnglishName l) l\<rparr>),
               reader, g)
             \<in> measure (\<lambda>(reader, g). length reader)"
    by simp
qed

text \<open>
  \<^verbatim>\<open>LanguageProvider.Load\<close> fetches its data with \<^verbatim>\<open>http.Get\<close>: the request fails
  with a message, or answers with a body for the reader.
\<close>

datatype http_result = GetError string | Response "csv_item list"

fun LanguageProvider_Load ::
  "((string \<rightharpoonup> Language list) \<Rightarrow> string list) \<Rightarrow> http_result \<Rightarrow> LanguageProvider \<times> language_vars
     \<Rightarrow> ((nat \<times> error option) \<times> LanguageProvider \<times> language_vars) outcome" where
  "LanguageProvider_Load rk get (p, g) =
     (let p0 = p\<lparr>entityIndexes := Some Map.empty\<rparr>;
          g0 = g\<lparr>alphaMap := Map.empty, language_vars.englishNameMap := Map.empty\<rparr>
      in
      case get of
        GetError msg \<Rightarrow> Returns ((0, Some (ServiceError msg StatusServiceUnavailable)), p0, g0)
      | Response body \<Rightarrow>
         (case LanguageProvider_Load_loop body g0 of
            (Some e, g1) \<Rightarrow> Returns ((0, Some e), p0, g1)
          | (None, g1) \<Rightarrow>
              bind_outcome (storeData rk p0 ''alpha'' (alphaMap g1)) (\<lambda>p1.
              bind_outcome (storeData rk p1 ''name'' (language_vars.englishNameMap g1)) (\<lambda>p2.
                Returns ((len_map (alphaMap g1), None),
                         p2\<lparr>size := len_map (alphaMap g1), loaded := True\<rparr>, g1)))))"

section \<open>Notions of the specification\<close>

text \<open>
  Prefix mode, in the words of the specification: a key is a candidate only if it is
  at least as long as the query, and it matches if its first \<open>length query\<close> bytes are
  equal to the query under the case-insensitive comparison.
\<close>

definition prefix_match :: "(rune \<Rightarrow> rune \<Rightarrow> bool) \<Rightarrow> string \<Rightarrow> string \<Rightarrow> bool" where
  "prefix_match orbit query key \<longleftrightarrow>
     length key \<ge> length query \<and> EqualFold orbit query (take (length query) key)"

text \<open>The test that one round of the loop of \<^verbatim>\<open>doSearch\<close> applies to a key.\<close>

definition doSearch_selects :: "(rune \<Rightarrow> rune \<Rightarrow> bool) \<Rightarrow> string \<Rightarrow> string \<Rightarrow> bool" where
  "doSearch_selects orbit query key \<longleftrightarrow> query = ''_dump'' \<or> prefix_match orbit query key"

text \<open>
  The invariant of an index: the key sequence is strictly ascending in the byte-wise
  order, so it has no duplicates, and it holds exactly the keys of the map.
\<close>

definition index_ok :: "'e index \<Rightarrow> bool" where
  "index_ok ci \<longleftrightarrow> sorted_wrt string_less (entityKeys ci) \<and> distinct (entityKeys ci)
     \<and> set (entityKeys ci) = dom (entityMap ci)"

text \<open>The index that \<^verbatim>\<open>storeData\<close> stores for the map \<open>m\<close>.\<close>

definition stored_index :: "((string \<rightharpoonup> 'e list) \<Rightarrow> string list) \<Rightarrow> (string \<rightharpoonup> 'e list) \<Rightarrow> 'e index" where
  "stored_index rk m = \<lparr>entityMap = m, entityKeys = sort (rk m)\<rparr>"

text \<open>
  The input of \<^verbatim>\<open>Load\<close> is well formed when the reader fails nowhere and every line
  has \<open>n\<close> fields; \<open>key_set j\<close> is the set of the values of field \<open>j\<close>, the distinct
  keys of the index on that field.
\<close>

definition well_formed :: "nat \<Rightarrow> csv_item list \<Rightarrow> bool" where
  "well_formed n reader \<longleftrightarrow> (\<forall>item \<in> set reader. \<exists>flds. item = Row flds \<and> length flds = n)"

definition key_set :: "nat \<Rightarrow> csv_item list \<Rightarrow> string set" where
  "key_set j reader = {flds ! j | flds. Row flds \<in> set reader}"

text \<open>The package variables after the loop of \<^verbatim>\<open>Load\<close>, and the indexes stored from them.\<close>

definition country_vars0 :: country_vars where
  "country_vars0 = \<lparr>country_vars.englishNameMap = Map.empty, alpha2Map = Map.empty,
                     alpha3Map = Map.empty, numericMap = Map.empty\<rparr>"

definition Country_maps :: "csv_item list \<Rightarrow> country_vars" where
  "Country_maps countrydata = snd (CountryProvider_Load_loop countrydata country_vars0)"

definition Country_indexes ::
  "((string \<rightharpoonup> Country list) \<Rightarrow> string list) \<Rightarrow> csv_item list \<Rightarrow> string \<rightharpoonup> Country index" where
  "Country_indexes rk countrydata =
     [''name'' \<mapsto> stored_index rk (country_vars.englishNameMap (Country_maps countrydata)),
      ''alpha2'' \<mapsto> stored_index rk (alpha2Map (Country_maps countrydata)),
      ''alpha3'' \<mapsto> stored_index rk (alpha3Map (Country_maps countrydata)),
      ''number'' \<mapsto> stored_index rk (numericMap (Country_maps countrydata))]"

definition language_vars0 :: language_vars where
  "language_vars0 = \<lparr>alphaMap = Map.empty, language_vars.englishNameMap = Map.empty\<rparr>"

definition Language_maps :: "csv_item list \<Rightarrow> language_vars" where
  "Language_maps body = snd (LanguageProvider_Load_loop body language_vars0)"

definition Language_indexes ::
  "((string \<rightharpoonup> Language list) \<Rightarrow> string list) \<Rightarrow> csv_item list \<Rightarrow> string \<rightharpoonup> Language index" where
  "Language_indexes rk body =
     [''alpha'' \<mapsto> stored_index rk (alphaMap (Language_maps body)),
      ''name'' \<mapsto> stored_index rk (language_vars.englishNameMap (Language_maps body))]"

section \<open>Example data\<close>

text \<open>
  A folding table for the letters of Latin-1 only: the runes U+00C0 to U+00DE,
  without U+00D7, are paired with the rune 32 places above.
\<close>

definition example_orbit :: "rune \<Rightarrow> rune \<Rightarrow> bool" where
  "example_orbit sr tr \<longleftrightarrow> 0xC0 \<le> sr \<and> sr \<le> 0xDE \<and> sr \<noteq> 0xD7 \<and> tr = sr + 0x20"

text \<open>An iteration order for maps: the keys in descending order.\<close>

definition example_rk :: "(string \<rightharpoonup> 'e list) \<Rightarrow> string list" where
  "example_rk m = rev (sorted_list_of_set (dom m))"

text \<open>Another iteration order: the keys in ascending order.\<close>

definition example_rk_ascending :: "(string \<rightharpoonup> 'e list) \<Rightarrow> string list" where
  "example_rk_ascending m = sorted_list_of_set (dom m)"

text \<open>
  The first three lines of the embedded country data; the name of the second begins
  with the two bytes of U+00C5.
\<close>

definition Afghanistan :: Country where
  "Afghanistan = \<lparr>Country.EnglishName = ''Afghanistan'', Alpha2Code = ''AF'',
                   Alpha3Code = ''AFG'', NumericCode = ''004''\<rparr>"

definition Aland_Islands :: Country where
  "Aland_Islands = \<lparr>Country.EnglishName = CHR 0xC3 # CHR 0x85 # ''land Islands'',
                     Alpha2Code = ''AX'', Alpha3Code = ''ALA'', NumericCode = ''248''\<rparr>"

definition Albania :: Country where
  "Albania = \<lparr>Country.EnglishName = ''Albania'', Alpha2Code = ''AL'',
               Alpha3Code = ''ALB'', NumericCode = ''008''\<rparr>"

definition example_countrydata :: "csv_item list" where
  "example_countrydata =
     [Row [''Afghanistan'', ''AF'', ''AFG'', ''004''],
      Row [CHR 0xC3 # CHR 0x85 # ''land Islands'', ''AX'', ''ALA'', ''248''],
      Row [''Albania'', ''AL'', ''ALB'', ''008'']]"

definition example_CountryProvider :: CountryProvider where
  "example_CountryProvider =
     \<lparr>loaded = True, size = 3, entityIndexes = Some (Country_indexes example_rk example_countrydata)\<rparr>"

text \<open>Two lines with the same English name.\<close>

definition example_same_name :: "csv_item list" where
  "example_same_name =
     [Row [''Congo'', ''CG'', ''COG'', ''178''], Row [''Congo'', ''CD'', ''COD'', ''180'']]"

text \<open>A line with three fields, and a reader that fails after one line.\<close>

definition example_short_line :: "csv_item list" where
  "example_short_line =
     [Row [''Afghanistan'', ''AF'', ''AFG'', ''004''], Row [''Albania'', ''AL'', ''ALB'']]"

text \<open>Three lines of the language data.\<close>

definition English :: Language where
  "English = \<lparr>Alpha3bibliographic = ''eng'', Alpha3terminologic = [], Alpha2 = ''en'',
               Language.EnglishName = ''English'', FrenchName = ''anglais''\<rparr>"

definition Middle_English :: Language where
  "Middle_English = \<lparr>Alpha3bibliographic = ''enm'', Alpha3terminologic = [], Alpha2 = [],
               Language.EnglishName = ''English, Middle (1100-1500)'',
               FrenchName = ''anglais moyen (1100-1500)''\<rparr>"

definition French :: Language where
  "French = \<lparr>Alpha3bibliographic = ''fre'', Alpha3terminologic = ''fra'', Alpha2 = ''fr'',
              Language.EnglishName = ''French'',
              FrenchName = ''fran'' @ CHR 0xC3 # CHR 0xA7 # ''ais''\<rparr>"

definition example_body :: "csv_item list" where
  "example_body =
     [Row [''fre'', ''fra'', ''fr'', ''French'', ''fran'' @ CHR 0xC3 # CHR 0xA7 # ''ais''],
      Row [''enm'', [], [], ''English, Middle (1100-1500)'', ''anglais moyen (1100-1500)''],
      Row [''eng'', [], ''en'', ''English'', ''anglais'']]"

definition example_LanguageProvider :: LanguageProvider where
  "example_LanguageProvider =
     \<lparr>loaded = True, size = 3, entityIndexes = Some (Language_indexes example_rk example_body)\<rparr>"

text \<open>Two lines with the same bibliographic code.\<close>

definition example_same_code :: "csv_item list" where
  "example_same_code =
     [Row [''eng'', [], ''en'', ''English'', ''anglais''],
      Row [''eng'', [], [], ''Old English'', []]]"

section \<open>Properties of the library operations\<close>

declare CountryProvider_Load_loop.simps [simp del]
declare LanguageProvider_Load_loop.simps [simp del]
declare CountryProvider_Load.simps [simp del]
declare LanguageProvider_Load.simps [simp del]

lemma map_lookup_simps [simp]:
  "map_lookup None k = None"
  "map_lookup (Some f) k = f k"
  by (simp_all add: map_lookup_def)

lemma map_assign_simps [simp]:
  "map_assign None k v = Panics"
  "map_assign (Some f) k v = Returns (Some (f(k \<mapsto> v)))"
  by (simp_all add: map_assign_def)

lemma string_less_iff: "string_less a b \<longleftrightarrow> a < b"
  by (induction a b rule: string_less.induct) (auto simp: less_char_def)

lemma sorted_wrt_string_less_sort:
  assumes "distinct ks"
  shows "sorted_wrt string_less (sort ks)"
proof -
  from assms have "sorted (sort ks)" and "distinct (sort ks)"
    by simp_all
  then have "sorted_wrt (<) (sort ks)"
    by (simp add: strict_sorted_iff)
  moreover have "string_less = (<)"
    by (intro ext) (simp add: string_less_iff)
  ultimately show ?thesis
    by simp
qed

lemma count_list_distinct:
  "distinct xs \<Longrightarrow> count_list xs k = (if k \<in> set xs then 1 else 0)"
  by (induction xs) auto

lemma for_range_append:
  "for_range body (xs @ ys) st = bind_outcome (for_range body xs st) (for_range body ys)"
proof (induction xs arbitrary: st)
  case Nil
  show ?case by simp
next
  case (Cons x xs)
  show ?case
  proof (cases "body x st")
    case Panics
    then show ?thesis by simp
  next
    case (Returns st')
    then show ?thesis using Cons.IH by simp
  qed
qed

lemma EqualFold_Nil: "EqualFold orbit [] []"
  by simp

section \<open>\<^verbatim>\<open>storeData\<close>\<close>

lemma storeData_keys_fills:
  "i + length ks \<le> length keys \<Longrightarrow>
   storeData_keys ks (keys, i) =
     Returns (take i keys @ ks @ drop (i + length ks) keys, i + length ks)"
proof (induction ks arbitrary: keys i)
  case Nil
  then show ?case by simp
next
  case (Cons k ks)
  from Cons.prems have lt: "i < length keys"
    and le: "Suc i + length ks \<le> length (keys[i := k])"
    by simp_all
  have "take (Suc i) (keys[i := k]) = take i keys @ [k]"
    using lt by (simp add: take_Suc_conv_app_nth)
  with Cons.IH[OF le] lt show ?case
    by simp
qed

lemma storeData_keys_all:
  assumes "length ks = n"
  shows "storeData_keys ks (replicate n [], 0) = Returns (ks, n)"
  using storeData_keys_fills[of 0 ks "replicate n []"] assms by simp

lemma storeData_stored:
  assumes "map_range rk" and "finite (dom m)"
  shows "storeData rk p s m =
           (case entityIndexes p of
              None \<Rightarrow> Panics
            | Some indexes \<Rightarrow>
                Returns (p\<lparr>entityIndexes := Some (indexes(s \<mapsto> stored_index rk m))\<rparr>))"
proof -
  from assms have "distinct (rk m)" and "set (rk m) = dom m"
    by (simp_all add: map_range_def)
  then have "length (rk m) = len_map m"
    by (simp add: len_map_def distinct_card[symmetric])
  then show ?thesis
    by (simp add: storeData_def storeData_keys_all sort_Strings_def stored_index_def
          map_assign_def split: option.split)
qed

lemma storeData_nil_map:
  assumes "map_range rk" and "finite (dom m)" and "entityIndexes p = None"
  shows "storeData rk p s m = Panics"
  using storeData_stored[OF assms(1,2), of p s] assms(3) by simp

lemma index_ok_stored:
  assumes "map_range rk" and "finite (dom m)"
  shows "index_ok (stored_index rk m)"
proof -
  from assms have "distinct (rk m)" and "set (rk m) = dom m"
    by (simp_all add: map_range_def)
  then show ?thesis
    by (simp add: index_ok_def stored_index_def sorted_wrt_string_less_sort)
qed

lemma stored_index_any_order:
  assumes "map_range rk1" and "map_range rk2" and "finite (dom m)"
  shows "stored_index rk1 m = stored_index rk2 m"
proof -
  from assms have "distinct (rk1 m)" "set (rk1 m) = dom m" "distinct (rk2 m)" "set (rk2 m) = dom m"
    by (simp_all add: map_range_def)
  then have "sort (rk1 m) = sort (rk2 m)"
    by (intro sorted_distinct_set_unique) simp_all
  then show ?thesis
    by (simp add: stored_index_def)
qed

section \<open>\<^verbatim>\<open>doSearch\<close>\<close>

lemma doSearch_body_step:
  assumes "k < length (entityKeys ci)" and "i < length tmp"
  shows "doSearch_body orbit ci query k (tmp, i) =
           (if doSearch_selects orbit query (entityKeys ci ! k)
            then Returns (tmp[i := map_index (entityMap ci) (entityKeys ci ! k)], Suc i)
            else Returns (tmp, i))"
  using assms
  by (auto simp: doSearch_body_def doSearch_selects_def prefix_match_def slice_to_def Let_def)

lemma list_update_append_replicate:
  "(xs @ replicate (Suc j) a)[length xs := v] = xs @ v # replicate j a"
  by (simp add: list_update_append)

lemma doSearch_loop_prefix:
  fixes ci :: "'e index" and orbit :: "rune \<Rightarrow> rune \<Rightarrow> bool" and query :: string
  defines "N \<equiv> length (entityKeys ci)"
  defines "R \<equiv> \<lambda>n. map (map_index (entityMap ci))
                      (filter (doSearch_selects orbit query) (take n (entityKeys ci)))"
  assumes "n \<le> N"
  shows "for_range (doSearch_body orbit ci query) [0 ..< n] (replicate N [], 0)
           = Returns (R n @ replicate (N - length (R n)) [], length (R n))"
  using assms(3)
proof (induction n)
  case 0
  show ?case by (simp add: R_def)
next
  case (Suc n)
  then have n: "n < N"
    and IH: "for_range (doSearch_body orbit ci query) [0 ..< n] (replicate N [], 0)
               = Returns (R n @ replicate (N - length (R n)) [], length (R n))"
    by simp_all
  have len: "length (R n) \<le> n"
    unfolding R_def by (simp add: le_trans[OF length_filter_le])
  then have i: "length (R n) < length (R n @ replicate (N - length (R n)) [])"
    using n by simp
  have tk: "take (Suc n) (entityKeys ci) = take n (entityKeys ci) @ [entityKeys ci ! n]"
    using n by (simp add: N_def take_Suc_conv_app_nth)
  have rep: "N - length (R n) = Suc (N - Suc (length (R n)))"
    using len n by simp
  show ?case
  proof (cases "doSearch_selects orbit query (entityKeys ci ! n)")
    case True
    then have RS: "R (Suc n) = R n @ [map_index (entityMap ci) (entityKeys ci ! n)]"
      by (simp add: R_def tk)
    have "(R n @ replicate (N - length (R n)) [])
              [length (R n) := map_index (entityMap ci) (entityKeys ci ! n)]
            = R n @ map_index (entityMap ci) (entityKeys ci ! n)
                # replicate (N - Suc (length (R n))) []"
      by (subst rep) (rule list_update_append_replicate)
    with True IH i n show ?thesis
      by (simp add: for_range_append doSearch_body_step N_def[symmetric] RS)
  next
    case False
    then have RS: "R (Suc n) = R n"
      by (simp add: R_def tk)
    with False IH i n show ?thesis
      by (simp add: for_range_append doSearch_body_step N_def[symmetric])
  qed
qed

lemma doSearch_filter:
  "doSearch orbit ci query =
     Returns (map (map_index (entityMap ci))
                (filter (doSearch_selects orbit query) (entityKeys ci)))"
  using doSearch_loop_prefix[of "length (entityKeys ci)" ci orbit query]
  by (simp add: doSearch_def)

lemma doSearch_dump:
  "doSearch orbit ci ''_dump'' = Returns (map (map_index (entityMap ci)) (entityKeys ci))"
  by (simp add: doSearch_filter doSearch_selects_def)

lemma doSearch_empty:
  "doSearch orbit ci [] = Returns (map (map_index (entityMap ci)) (entityKeys ci))"
  by (simp add: doSearch_filter doSearch_selects_def prefix_match_def)

lemma doSearch_prefix:
  assumes "query \<noteq> ''_dump''"
  shows "doSearch orbit ci query =
     Returns (map (map_index (entityMap ci)) (filter (prefix_match orbit query) (entityKeys ci)))"
proof -
  from assms have "doSearch_selects orbit query = prefix_match orbit query"
    by (intro ext) (simp add: doSearch_selects_def)
  then show ?thesis
    by (simp add: doSearch_filter)
qed

lemma matching_keys:
  assumes "index_ok ci"
  shows "sorted_wrt string_less (filter P (entityKeys ci))"
    and "set (filter P (entityKeys ci)) = {k \<in> dom (entityMap ci). P k}"
  using assms by (auto simp: index_ok_def sorted_wrt_filter)

lemma Country_Search_loaded:
  assumes "loaded p" and "map_lookup (entityIndexes p) index = Some ci"
  shows "CountryProvider_Search orbit p index query =
           bind_outcome (doSearch orbit ci query) (\<lambda>result. Returns (Some result, None))"
  using assms by (simp add: CountryProvider_Search_def)

lemma Language_Search_loaded:
  assumes "loaded p" and "map_lookup (entityIndexes p) index = Some li"
  shows "LanguageProvider_Search orbit p index query =
           bind_outcome (doSearch orbit li query) (\<lambda>result. Returns (Some result, None))"
  using assms by (simp add: LanguageProvider_Search_def)

section \<open>\<^verbatim>\<open>Load\<close>\<close>

lemma key_set_simps:
  "key_set j [] = {}"
  "key_set j (Fail msg # rest) = key_set j rest"
  "key_set j (Row flds # rest) = insert (flds ! j) (key_set j rest)"
  by (auto simp: key_set_def)

lemma finite_key_set: "finite (key_set j reader)"
proof (induction reader)
  case Nil
  show ?case by (simp add: key_set_simps)
next
  case (Cons item reader)
  then show ?case by (cases item) (simp_all add: key_set_simps)
qed

lemma dom_map_append: "dom (map_append m k c) = insert k (dom m)"
  by (simp add: map_append_def)

lemma country_vars0_eq:
  "g\<lparr>country_vars.englishNameMap := Map.empty, alpha2Map := Map.empty,
      alpha3Map := Map.empty, numericMap := Map.empty\<rparr> = country_vars0"
  by (simp add: country_vars0_def)

lemma language_vars0_eq:
  "g\<lparr>alphaMap := Map.empty, language_vars.englishNameMap := Map.empty\<rparr> = language_vars0"
  by (simp add: language_vars0_def)

lemma Country_loop_Nil: "CountryProvider_Load_loop [] g = (None, g)"
  by (simp add: CountryProvider_Load_loop.simps)

lemma Country_loop_Fail:
  "CountryProvider_Load_loop (Fail msg # rest) g =
     (Some (ServiceError msg StatusServiceUnavailable), g)"
  by (simp add: CountryProvider_Load_loop.simps)

lemma Country_loop_Row:
  "CountryProvider_Load_loop (Row flds # rest) g =
     (if length flds = 4 then
        CountryProvider_Load_loop rest
          (g\<lparr>country_vars.englishNameMap := map_append (country_vars.englishNameMap g) (flds ! 0)
                 \<lparr>Country.EnglishName = flds ! 0, Alpha2Code = flds ! 1,
                   Alpha3Code = flds ! 2, NumericCode = flds ! 3\<rparr>,
             alpha2Map := map_append (alpha2Map g) (flds ! 1)
                 \<lparr>Country.EnglishName = flds ! 0, Alpha2Code = flds ! 1,
                   Alpha3Code = flds ! 2, NumericCode = flds ! 3\<rparr>,
             alpha3Map := map_append (alpha3Map g) (flds ! 2)
                 \<lparr>Country.EnglishName = flds ! 0, Alpha2Code = flds ! 1,
                   Alpha3Code = flds ! 2, NumericCode = flds ! 3\<rparr>,
             numericMap := map_append (numericMap g) (flds ! 3)
                 \<lparr>Country.EnglishName = flds ! 0, Alpha2Code = flds ! 1,
                   Alpha3Code = flds ! 2, NumericCode = flds ! 3\<rparr>\<rparr>)
      else (Some (ServiceError ErrFieldCount StatusServiceUnavailable), g))"
  by (simp add: CountryProvider_Load_loop.simps[of "Row flds # rest"] Let_def)

lemmas Country_loop_simps = Country_loop_Nil Country_loop_Fail Country_loop_Row

lemma Country_loop_error:
  "fst (CountryProvider_Load_loop reader g) = Some e \<Longrightarrow>
     \<exists>msg. e = ServiceError msg StatusServiceUnavailable"
proof (induction reader arbitrary: g)
  case Nil
  then show ?case by (simp add: Country_loop_simps)
next
  case (Cons item reader)
  then show ?case
    by (cases item) (auto simp: Country_loop_simps split: if_splits)
qed

lemma Country_loop_ok_iff:
  "fst (CountryProvider_Load_loop reader g) = None \<longleftrightarrow> well_formed 4 reader"
proof (induction reader arbitrary: g)
  case Nil
  show ?case by (simp add: Country_loop_simps well_formed_def)
next
  case (Cons item reader)
  show ?case
  proof (cases item)
    case (Row flds)
    then show ?thesis using Cons.IH
      by (simp add: Country_loop_simps well_formed_def)
  next
    case (Fail msg)
    then show ?thesis
      by (simp add: Country_loop_simps well_formed_def)
  qed
qed

lemma Country_loop_doms:
  assumes "well_formed 4 reader"
  shows "dom (country_vars.englishNameMap (snd (CountryProvider_Load_loop reader g)))
           = dom (country_vars.englishNameMap g) \<union> key_set 0 reader
       \<and> dom (alpha2Map (snd (CountryProvider_Load_loop reader g)))
           = dom (alpha2Map g) \<union> key_set 1 reader
       \<and> dom (alpha3Map (snd (CountryProvider_Load_loop reader g)))
           = dom (alpha3Map g) \<union> key_set 2 reader
       \<and> dom (numericMap (snd (CountryProvider_Load_loop reader g)))
           = dom (numericMap g) \<union> key_set 3 reader"
  using assms
proof (induction reader arbitrary: g)
  case Nil
  show ?case by (simp add: Country_loop_simps key_set_simps)
next
  case (Cons item reader)
  from Cons.prems obtain flds where item: "item = Row flds" and len: "length flds = 4"
    and wf: "well_formed 4 reader"
    by (auto simp: well_formed_def)
  show ?case
    unfolding item
    by (simp add: Country_loop_Row len Cons.IH[OF wf] key_set_simps dom_map_append)
qed

lemma Country_maps_dom:
  assumes "well_formed 4 countrydata"
  shows "dom (country_vars.englishNameMap (Country_maps countrydata)) = key_set 0 countrydata"
    and "dom (alpha2Map (Country_maps countrydata)) = key_set 1 countrydata"
    and "dom (alpha3Map (Country_maps countrydata)) = key_set 2 countrydata"
    and "dom (numericMap (Country_maps countrydata)) = key_set 3 countrydata"
  using Country_loop_doms[OF assms, of country_vars0]
  by (simp_all add: Country_maps_def country_vars0_def)

lemma Country_Load_ok:
  assumes rk: "map_range rk" and wf: "well_formed 4 countrydata"
  shows "CountryProvider_Load rk countrydata (p, g) =
           Returns ((card (key_set 0 countrydata), None),
                    \<lparr>loaded = True, size = card (key_set 0 countrydata),
                      entityIndexes = Some (Country_indexes rk countrydata)\<rparr>,
                    Country_maps countrydata)"
proof -
  have "fst (CountryProvider_Load_loop countrydata country_vars0) = None"
    using Country_loop_ok_iff wf by simp
  then have ok: "CountryProvider_Load_loop countrydata country_vars0
                   = (None, Country_maps countrydata)"
    by (simp add: Country_maps_def prod_eq_iff)
  show ?thesis
    using ok
    by (simp add: CountryProvider_Load.simps country_vars0_eq storeData_stored[OF rk] len_map_def
          Country_maps_dom[OF wf] Let_def finite_key_set Country_indexes_def)
qed

lemma Country_Load_fail:
  assumes "\<not> well_formed 4 countrydata"
  shows "\<exists>msg g1. CountryProvider_Load rk countrydata (p, g) =
           Returns ((0, Some (ServiceError msg StatusServiceUnavailable)),
                    p\<lparr>entityIndexes := Some Map.empty\<rparr>, g1)"
proof -
  from assms obtain e where e: "fst (CountryProvider_Load_loop countrydata country_vars0) = Some e"
    using Country_loop_ok_iff[of countrydata country_vars0]
    by (cases "fst (CountryProvider_Load_loop countrydata country_vars0)") auto
  then obtain msg where "e = ServiceError msg StatusServiceUnavailable"
    using Country_loop_error by blast
  with e obtain g1 where "CountryProvider_Load_loop countrydata country_vars0
                 = (Some (ServiceError msg StatusServiceUnavailable), g1)"
    by (cases "CountryProvider_Load_loop countrydata country_vars0") simp
  then show ?thesis
    by (simp add: CountryProvider_Load.simps country_vars0_eq Let_def)
qed

lemma Country_Load_success:
  assumes rk: "map_range rk"
    and load: "CountryProvider_Load rk countrydata s = Returns ((n, None), p, g)"
  shows "well_formed 4 countrydata"
    and "n = card (key_set 0 countrydata)"
    and "p = \<lparr>loaded = True, size = n, entityIndexes = Some (Country_indexes rk countrydata)\<rparr>"
    and "g = Country_maps countrydata"
proof -
  obtain p0 g0 where s: "s = (p0, g0)"
    by (cases s)
  show wf: "well_formed 4 countrydata"
  proof (rule ccontr)
    assume "\<not> well_formed 4 countrydata"
    from Country_Load_fail[OF this, of rk p0 g0] load s show False
      by auto
  qed
  from Country_Load_ok[OF rk wf, of p0 g0] load s
  show "n = card (key_set 0 countrydata)"
    and "p = \<lparr>loaded = True, size = n, entityIndexes = Some (Country_indexes rk countrydata)\<rparr>"
    and "g = Country_maps countrydata"
    by auto
qed

lemma bind_outcome_Returns:
  "bind_outcome x f = Returns r \<Longrightarrow> \<exists>y. x = Returns y \<and> f y = Returns r"
  by (cases x) simp_all

lemma Country_Load_error:
  assumes "CountryProvider_Load rk countrydata (p, g) = Returns ((n, Some e), p', g')"
  shows "\<not> well_formed 4 countrydata"
proof
  assume "well_formed 4 countrydata"
  then have "fst (CountryProvider_Load_loop countrydata country_vars0) = None"
    using Country_loop_ok_iff by simp
  then obtain g1 where "CountryProvider_Load_loop countrydata country_vars0 = (None, g1)"
    by (cases "CountryProvider_Load_loop countrydata country_vars0") simp
  with assms show False
    by (auto simp: CountryProvider_Load.simps country_vars0_eq Let_def
        dest!: bind_outcome_Returns)
qed

lemma Country_indexes_ok:
  assumes "map_range rk" and "well_formed 4 countrydata"
    and "Country_indexes rk countrydata index = Some ci"
  shows "index_ok ci"
  using assms(3) index_ok_stored[OF assms(1)] Country_maps_dom[OF assms(2)]
  by (auto simp: Country_indexes_def finite_key_set split: if_splits)

lemma Country_indexes_any_order:
  assumes "map_range rk1" and "map_range rk2" and "well_formed 4 countrydata"
  shows "Country_indexes rk1 countrydata = Country_indexes rk2 countrydata"
  using stored_index_any_order[OF assms(1,2)] Country_maps_dom[OF assms(3)]
  by (simp add: Country_indexes_def finite_key_set)

lemma Language_loop_Nil: "LanguageProvider_Load_loop [] g = (None, g)"
  by (simp add: LanguageProvider_Load_loop.simps)

lemma Language_loop_Fail:
  "LanguageProvider_Load_loop (Fail msg # rest) g =
     (Some (ServiceError msg StatusServiceUnavailable), g)"
  by (simp add: LanguageProvider_Load_loop.simps)

lemma Language_loop_Row:
  "LanguageProvider_Load_loop (Row flds # rest) g =
     (if length flds = 5 then
        LanguageProvider_Load_loop rest
          (g\<lparr>alphaMap := map_append (alphaMap g) (flds ! 0)
                 \<lparr>Alpha3bibliographic = flds ! 0, Alpha3terminologic = flds ! 1,
                   Alpha2 = flds ! 2, Language.EnglishName = flds ! 3, FrenchName = flds ! 4\<rparr>,
             language_vars.englishNameMap :=
               map_append (language_vars.englishNameMap g) (flds ! 3)
                 \<lparr>Alpha3bibliographic = flds ! 0, Alpha3terminologic = flds ! 1,
                   Alpha2 = flds ! 2, Language.EnglishName = flds ! 3, FrenchName = flds ! 4\<rparr>\<rparr>)
      else (Some (ServiceError ErrFieldCount StatusServiceUnavailable), g))"
  by (simp add: LanguageProvider_Load_loop.simps[of "Row flds # rest"] Let_def)

lemmas Language_loop_simps = Language_loop_Nil Language_loop_Fail Language_loop_Row

lemma Language_loop_error:
  "fst (LanguageProvider_Load_loop reader g) = Some e \<Longrightarrow>
     \<exists>msg. e = ServiceError msg StatusServiceUnavailable"
proof (induction reader arbitrary: g)
  case Nil
  then show ?case by (simp add: Language_loop_simps)
next
  case (Cons item reader)
  then show ?case
    by (cases item) (auto simp: Language_loop_simps split: if_splits)
qed

lemma Language_loop_ok_iff:
  "fst (LanguageProvider_Load_loop reader g) = None \<longleftrightarrow> well_formed 5 reader"
proof (induction reader arbitrary: g)
  case Nil
  show ?case by (simp add: Language_loop_simps well_formed_def)
next
  case (Cons item reader)
  show ?case
  proof (cases item)
    case (Row flds)
    then show ?thesis using Cons.IH
      by (simp add: Language_loop_simps well_formed_def)
  next
    case (Fail msg)
    then show ?thesis
      by (simp add: Language_loop_simps well_formed_def)
  qed
qed

lemma Language_loop_doms:
  assumes "well_formed 5 reader"
  shows "dom (alphaMap (snd (LanguageProvider_Load_loop reader g)))
           = dom (alphaMap g) \<union> key_set 0 reader
       \<and> dom (language_vars.englishNameMap (snd (LanguageProvider_Load_loop reader g)))
           = dom (language_vars.englishNameMap g) \<union> key_set 3 reader"
  using assms
proof (induction reader arbitrary: g)
  case Nil
  show ?case by (simp add: Language_loop_simps key_set_simps)
next
  case (Cons item reader)
  from Cons.prems obtain flds where item: "item = Row flds" and len: "length flds = 5"
    and wf: "well_formed 5 reader"
    by (auto simp: well_formed_def)
  show ?case
    unfolding item
    by (simp add: Language_loop_Row len Cons.IH[OF wf] key_set_simps dom_map_append)
qed

lemma Language_maps_dom:
  assumes "well_formed 5 body"
  shows "dom (alphaMap (Language_maps body)) = key_set 0 body"
    and "dom (language_vars.englishNameMap (Language_maps body)) = key_set 3 body"
  using Language_loop_doms[OF assms, of language_vars0]
  by (simp_all add: Language_maps_def language_vars0_def)

lemma Language_Load_ok:
  assumes rk: "map_range rk" and wf: "well_formed 5 body"
  shows "LanguageProvider_Load rk (Response body) (p, g) =
           Returns ((card (key_set 0 body), None),
                    \<lparr>loaded = True, size = card (key_set 0 body),
                      entityIndexes = Some (Language_indexes rk body)\<rparr>,
                    Language_maps body)"
proof -
  have "fst (LanguageProvider_Load_loop body language_vars0) = None"
    using Language_loop_ok_iff wf by simp
  then have ok: "LanguageProvider_Load_loop body language_vars0 = (None, Language_maps body)"
    by (simp add: Language_maps_def prod_eq_iff)
  show ?thesis
    using ok
    by (simp add: LanguageProvider_Load.simps language_vars0_eq storeData_stored[OF rk] len_map_def
          Language_maps_dom[OF wf] Let_def finite_key_set Language_indexes_def)
qed

lemma Language_Load_fail:
  assumes "get = GetError m \<or> get = Response body \<and> \<not> well_formed 5 body"
  shows "\<exists>msg g1. LanguageProvider_Load rk get (p, g) =
           Returns ((0, Some (ServiceError msg StatusServiceUnavailable)),
                    p\<lparr>entityIndexes := Some Map.empty\<rparr>, g1)"
  using assms
proof
  assume "get = GetError m"
  then show ?thesis by (simp add: LanguageProvider_Load.simps Let_def)
next
  assume a: "get = Response body \<and> \<not> well_formed 5 body"
  from a obtain e where e: "fst (LanguageProvider_Load_loop body language_vars0) = Some e"
    using Language_loop_ok_iff[of body language_vars0]
    by (cases "fst (LanguageProvider_Load_loop body language_vars0)") auto
  then obtain msg where "e = ServiceError msg StatusServiceUnavailable"
    using Language_loop_error by blast
  with e obtain g1 where "LanguageProvider_Load_loop body language_vars0
                 = (Some (ServiceError msg StatusServiceUnavailable), g1)"
    by (cases "LanguageProvider_Load_loop body language_vars0") simp
  with a show ?thesis
    by (simp add: LanguageProvider_Load.simps language_vars0_eq Let_def)
qed

lemma Language_Load_success:
  assumes rk: "map_range rk"
    and load: "LanguageProvider_Load rk get s = Returns ((n, None), p, g)"
  shows "\<exists>body. get = Response body \<and> well_formed 5 body \<and> n = card (key_set 0 body)
           \<and> p = \<lparr>loaded = True, size = n, entityIndexes = Some (Language_indexes rk body)\<rparr>
           \<and> g = Language_maps body"
proof -
  obtain p0 g0 where s: "s = (p0, g0)"
    by (cases s)
  show ?thesis
  proof (cases get)
    case (GetError m)
    from Language_Load_fail[of get m undefined rk p0 g0] GetError load s show ?thesis
      by auto
  next
    case (Response body)
    have wf: "well_formed 5 body"
    proof (rule ccontr)
      assume "\<not> well_formed 5 body"
      with Response have "get = GetError [] \<or> get = Response body \<and> \<not> well_formed 5 body"
        by simp
      from Language_Load_fail[OF this, of rk p0 g0] load s show False
        by auto
    qed
    from Language_Load_ok[OF rk wf, of p0 g0] load s Response wf show ?thesis
      by auto
  qed
qed

lemma Language_Load_error:
  assumes "LanguageProvider_Load rk get (p, g) = Returns ((n, Some e), p', g')"
  shows "get = GetError (case get of GetError m \<Rightarrow> m | Response body \<Rightarrow> [])
           \<or> get = Response (case get of GetError m \<Rightarrow> [] | Response body \<Rightarrow> body)
             \<and> \<not> well_formed 5 (case get of GetError m \<Rightarrow> [] | Response body \<Rightarrow> body)"
proof (cases get)
  case (GetError m)
  then show ?thesis by simp
next
  case (Response body)
  have "\<not> well_formed 5 body"
  proof
    assume "well_formed 5 body"
    then have "fst (LanguageProvider_Load_loop body language_vars0) = None"
      using Language_loop_ok_iff by simp
    then obtain g1 where "LanguageProvider_Load_loop body language_vars0 = (None, g1)"
      by (cases "LanguageProvider_Load_loop body language_vars0") simp
    with assms Response show False
      by (auto simp: LanguageProvider_Load.simps language_vars0_eq Let_def
          dest!: bind_outcome_Returns)
  qed
  with Response show ?thesis by simp
qed

lemma Language_indexes_ok:
  assumes "map_range rk" and "well_formed 5 body"
    and "Language_indexes rk body index = Some li"
  shows "index_ok li"
  using assms(3) index_ok_stored[OF assms(1)] Language_maps_dom[OF assms(2)]
  by (auto simp: Language_indexes_def finite_key_set split: if_splits)

lemma Language_indexes_any_order:
  assumes "map_range rk1" and "map_range rk2" and "well_formed 5 body"
  shows "Language_indexes rk1 body = Language_indexes rk2 body"
  using stored_index_any_order[OF assms(1,2)] Language_maps_dom[OF assms(3)]
  by (simp add: Language_indexes_def finite_key_set)

section \<open>The examples, evaluated\<close>

lemma map_range_example_rk: "map_range example_rk"
  by (simp add: map_range_def example_rk_def)

lemma map_range_example_rk_ascending: "map_range example_rk_ascending"
  by (simp add: map_range_def example_rk_ascending_def)

lemma example_countrydata_well_formed: "well_formed 4 example_countrydata"
  by (simp add: well_formed_def example_countrydata_def)

lemma example_body_well_formed: "well_formed 5 example_body"
  by (simp add: well_formed_def example_body_def)

lemma example_Country_Load:
  "CountryProvider_Load example_rk example_countrydata (new_provider, country_vars0) =
     Returns ((3, None), example_CountryProvider, Country_maps example_countrydata)"
proof -
  have "card (key_set 0 example_countrydata) = 3"
    by (simp add: example_countrydata_def key_set_simps)
  with Country_Load_ok[OF map_range_example_rk example_countrydata_well_formed,
      of new_provider country_vars0]
  show ?thesis
    by (simp add: example_CountryProvider_def)
qed

lemma example_Language_Load:
  "LanguageProvider_Load example_rk (Response example_body) (new_provider, language_vars0) =
     Returns ((3, None), example_LanguageProvider, Language_maps example_body)"
proof -
  have "card (key_set 0 example_body) = 3"
    by (simp add: example_body_def key_set_simps)
  with Language_Load_ok[OF map_range_example_rk example_body_well_formed,
      of new_provider language_vars0]
  show ?thesis
    by (simp add: example_LanguageProvider_def)
qed

lemma example_alpha2_index:
  "map_lookup (entityIndexes example_CountryProvider) ''alpha2'' =
     Some \<lparr>entityMap = [''AF'' \<mapsto> [Afghanistan], ''AX'' \<mapsto> [Aland_Islands], ''AL'' \<mapsto> [Albania]],
           entityKeys = [''AF'', ''AL'', ''AX'']\<rparr>"
  by (simp add: example_CountryProvider_def Country_indexes_def Country_maps_def
        example_countrydata_def Country_loop_simps country_vars0_def map_append_def map_index_def
        stored_index_def example_rk_def Afghanistan_def Aland_Islands_def Albania_def)

lemma example_name_index:
  "map_lookup (entityIndexes example_CountryProvider) ''name'' =
     Some \<lparr>entityMap = [''Afghanistan'' \<mapsto> [Afghanistan],
                         CHR 0xC3 # CHR 0x85 # ''land Islands'' \<mapsto> [Aland_Islands],
                         ''Albania'' \<mapsto> [Albania]],
           entityKeys = [''Afghanistan'', ''Albania'', CHR 0xC3 # CHR 0x85 # ''land Islands'']\<rparr>"
  by (simp add: example_CountryProvider_def Country_indexes_def Country_maps_def
        example_countrydata_def Country_loop_simps country_vars0_def map_append_def map_index_def
        stored_index_def example_rk_def Afghanistan_def Aland_Islands_def Albania_def)

lemma example_alpha_index:
  "map_lookup (entityIndexes example_LanguageProvider) ''alpha'' =
     Some \<lparr>entityMap = [''fre'' \<mapsto> [French], ''enm'' \<mapsto> [Middle_English], ''eng'' \<mapsto> [English]],
           entityKeys = [''eng'', ''enm'', ''fre'']\<rparr>"
  by (simp add: example_LanguageProvider_def Language_indexes_def Language_maps_def
        example_body_def Language_loop_simps language_vars0_def map_append_def map_index_def
        stored_index_def example_rk_def French_def Middle_English_def English_def)

lemmas Search_eval =
  CountryProvider_Search_def LanguageProvider_Search_def doSearch_def doSearch_body_def
  slice_to_def map_index_def fold_rune_def RuneSelf_def example_orbit_def
  example_CountryProvider_def example_LanguageProvider_def upt_rec[of 0] upt_rec[of "Suc n" for n]
  eval_nat_numeral

lemma example_Search_alpha2_a:
  "CountryProvider_Search example_orbit example_CountryProvider ''alpha2'' ''a''
     = Returns (Some [[Afghanistan], [Albania], [Aland_Islands]], None)"
  using example_alpha2_index by (simp add: Search_eval)

lemma example_Search_alpha_EN:
  "LanguageProvider_Search example_orbit example_LanguageProvider ''alpha'' ''EN''
     = Returns (Some [[English], [Middle_English]], None)"
  using example_alpha_index by (simp add: Search_eval)

lemma example_Search_alpha2_dump:
  "CountryProvider_Search example_orbit example_CountryProvider ''alpha2'' ''_dump''
     = Returns (Some [[Afghanistan], [Albania], [Aland_Islands]], None)"
  using example_alpha2_index by (simp add: Search_eval)

lemma example_Search_alpha_dump:
  "LanguageProvider_Search example_orbit example_LanguageProvider ''alpha'' ''_dump''
     = Returns (Some [[English], [Middle_English], [French]], None)"
  using example_alpha_index by (simp add: Search_eval)

lemma example_Search_alpha2_empty:
  "CountryProvider_Search example_orbit example_CountryProvider ''alpha2'' []
     = Returns (Some [[Afghanistan], [Albania], [Aland_Islands]], None)"
  using example_alpha2_index by (simp add: Search_eval)

lemma example_Search_alpha_empty:
  "LanguageProvider_Search example_orbit example_LanguageProvider ''alpha'' []
     = Returns (Some [[English], [Middle_English], [French]], None)"
  using example_alpha_index by (simp add: Search_eval)

lemma example_short_line_Load:
  "CountryProvider_Load example_rk example_short_line (new_provider, country_vars0)
     = Returns ((0, Some (ServiceError ''wrong number of fields in line'' 503)),
         \<lparr>loaded = False, size = 0, entityIndexes = Some Map.empty\<rparr>,
         \<lparr>country_vars.englishNameMap = [''Afghanistan'' \<mapsto> [Afghanistan]],
          alpha2Map = [''AF'' \<mapsto> [Afghanistan]], alpha3Map = [''AFG'' \<mapsto> [Afghanistan]],
          numericMap = [''004'' \<mapsto> [Afghanistan]]\<rparr>)"
  by (simp add: CountryProvider_Load.simps example_short_line_def Country_loop_simps
        country_vars0_def new_provider_def map_append_def map_index_def Afghanistan_def
        ErrFieldCount_def StatusServiceUnavailable_def)

lemma example_GetError_Load:
  "LanguageProvider_Load example_rk (GetError ''connection refused'') (new_provider, language_vars0)
     = Returns ((0, Some (ServiceError ''connection refused'' 503)),
         \<lparr>loaded = False, size = 0, entityIndexes = Some Map.empty\<rparr>, language_vars0)"
  by (simp add: LanguageProvider_Load.simps language_vars0_def new_provider_def
        StatusServiceUnavailable_def)

lemma example_same_name_Load:
  "CountryProvider_Load example_rk example_same_name (new_provider, country_vars0)
     = Returns ((1, None),
         \<lparr>loaded = True, size = 1, entityIndexes = Some (Country_indexes example_rk example_same_name)\<rparr>,
         Country_maps example_same_name)"
proof -
  have "well_formed 4 example_same_name"
    by (simp add: well_formed_def example_same_name_def)
  moreover have "card (key_set 0 example_same_name) = 1"
    by (simp add: example_same_name_def key_set_simps)
  ultimately show ?thesis
    using Country_Load_ok[OF map_range_example_rk, of example_same_name new_provider country_vars0]
    by simp
qed

lemma example_same_code_Load:
  "LanguageProvider_Load example_rk (Response example_same_code) (new_provider, language_vars0)
     = Returns ((1, None),
         \<lparr>loaded = True, size = 1, entityIndexes = Some (Language_indexes example_rk example_same_code)\<rparr>,
         Language_maps example_same_code)"
proof -
  have "well_formed 5 example_same_code"
    by (simp add: well_formed_def example_same_code_def)
  moreover have "card (key_set 0 example_same_code) = 1"
    by (simp add: example_same_code_def key_set_simps)
  ultimately show ?thesis
    using Language_Load_ok[OF map_range_example_rk, of example_same_code new_provider language_vars0]
    by simp
qed

lemma example_same_name_index:
  "Country_indexes example_rk example_same_name ''name''
     = Some \<lparr>entityMap = [''Congo'' \<mapsto>
                 [\<lparr>Country.EnglishName = ''Congo'', Alpha2Code = ''CG'', Alpha3Code = ''COG'',
                    NumericCode = ''178''\<rparr>,
                  \<lparr>Country.EnglishName = ''Congo'', Alpha2Code = ''CD'', Alpha3Code = ''COD'',
                    NumericCode = ''180''\<rparr>]],
             entityKeys = [''Congo'']\<rparr>"
  by (simp add: Country_indexes_def Country_maps_def example_same_name_def Country_loop_simps
        country_vars0_def map_append_def map_index_def stored_index_def example_rk_def)

lemma example_same_code_index:
  "Language_indexes example_rk example_same_code ''alpha''
     = Some \<lparr>entityMap = [''eng'' \<mapsto>
                 [English,
                  \<lparr>Alpha3bibliographic = ''eng'', Alpha3terminologic = [], Alpha2 = [],
                    Language.EnglishName = ''Old English'', FrenchName = []\<rparr>]],
             entityKeys = [''eng'']\<rparr>"
  by (simp add: Language_indexes_def Language_maps_def example_same_code_def Language_loop_simps
        language_vars0_def map_append_def map_index_def stored_index_def example_rk_def
        English_def)

lemma example_Country_Load_ascending:
  "CountryProvider_Load example_rk_ascending example_countrydata (new_provider, country_vars0) =
     Returns ((3, None),
       \<lparr>loaded = True, size = 3,
         entityIndexes = Some (Country_indexes example_rk_ascending example_countrydata)\<rparr>,
       Country_maps example_countrydata)"
proof -
  have "card (key_set 0 example_countrydata) = 3"
    by (simp add: example_countrydata_def key_set_simps)
  with Country_Load_ok[OF map_range_example_rk_ascending example_countrydata_well_formed,
      of new_provider country_vars0]
  show ?thesis
    by simp
qed

lemma example_Language_Load_ascending:
  "LanguageProvider_Load example_rk_ascending (Response example_body)
       (new_provider, language_vars0) =
     Returns ((3, None),
       \<lparr>loaded = True, size = 3,
         entityIndexes = Some (Language_indexes example_rk_ascending example_body)\<rparr>,
       Language_maps example_body)"
proof -
  have "card (key_set 0 example_body) = 3"
    by (simp add: example_body_def key_set_simps)
  with Language_Load_ok[OF map_range_example_rk_ascending example_body_well_formed,
      of new_provider language_vars0]
  show ?thesis
    by simp
qed

section \<open>The claims\<close>

text \<open>
  C1. Let a provider be loaded (by a \<^verbatim>\<open>Load\<close> that returned no error), let \<open>index\<close>
  name one of its indexes and let the query differ from \<^verbatim>\<open>_dump\<close>. Then \<^verbatim>\<open>Search\<close>
  returns, without error, the groups of a key sequence \<open>ks\<close> that ascends strictly in
  the byte-wise order, so that no key occurs twice, and whose keys are exactly the keys
  \<open>k\<close> of the index with \<open>length k \<ge> length query\<close> whose first \<open>length query\<close>
  bytes are equal to the query under \<^verbatim>\<open>strings.EqualFold\<close>. Length and prefix count
  bytes, as \<^verbatim>\<open>len\<close> and the slice expression of Go do.
\<close>

theorem Search_prefix:
  assumes "query \<noteq> ''_dump''"
  shows "(map_range rkc
            \<and> CountryProvider_Load rkc countrydata sc = Returns ((nc, None), pc, gc)
            \<and> map_lookup (entityIndexes pc) index = Some ci \<longrightarrow>
          (\<exists>ks. CountryProvider_Search orbit pc index query
                   = Returns (Some (map (map_index (entityMap ci)) ks), None)
                \<and> sorted_wrt string_less ks
                \<and> set ks = {k \<in> dom (entityMap ci). prefix_match orbit query k}))
       \<and> (map_range rkl
            \<and> LanguageProvider_Load rkl get sl = Returns ((nl, None), pl, gl)
            \<and> map_lookup (entityIndexes pl) index = Some li \<longrightarrow>
          (\<exists>ks. LanguageProvider_Search orbit pl index query
                   = Returns (Some (map (map_index (entityMap li)) ks), None)
                \<and> sorted_wrt string_less ks
                \<and> set ks = {k \<in> dom (entityMap li). prefix_match orbit query k}))"
proof (intro conjI impI)
  assume a: "map_range rkc
            \<and> CountryProvider_Load rkc countrydata sc = Returns ((nc, None), pc, gc)
            \<and> map_lookup (entityIndexes pc) index = Some ci"
  then have p: "pc = \<lparr>loaded = True, size = nc, entityIndexes = Some (Country_indexes rkc countrydata)\<rparr>"
    and wf: "well_formed 4 countrydata"
    using Country_Load_success by blast+
  with a have ok: "index_ok ci"
    using Country_indexes_ok[of rkc countrydata index ci] by simp
  let ?ks = "filter (prefix_match orbit query) (entityKeys ci)"
  from a p have "CountryProvider_Search orbit pc index query
                   = Returns (Some (map (map_index (entityMap ci)) ?ks), None)"
    by (simp add: Country_Search_loaded doSearch_prefix[OF assms])
  with matching_keys[OF ok, of "prefix_match orbit query"]
  show "\<exists>ks. CountryProvider_Search orbit pc index query
                   = Returns (Some (map (map_index (entityMap ci)) ks), None)
                \<and> sorted_wrt string_less ks
                \<and> set ks = {k \<in> dom (entityMap ci). prefix_match orbit query k}"
    by blast
next
  assume a: "map_range rkl
            \<and> LanguageProvider_Load rkl get sl = Returns ((nl, None), pl, gl)
            \<and> map_lookup (entityIndexes pl) index = Some li"
  then obtain body where p: "pl = \<lparr>loaded = True, size = nl, entityIndexes = Some (Language_indexes rkl body)\<rparr>"
    and wf: "well_formed 5 body"
    using Language_Load_success by blast
  with a have ok: "index_ok li"
    using Language_indexes_ok[of rkl body index li] by simp
  let ?ks = "filter (prefix_match orbit query) (entityKeys li)"
  from a p have "LanguageProvider_Search orbit pl index query
                   = Returns (Some (map (map_index (entityMap li)) ?ks), None)"
    by (simp add: Language_Search_loaded doSearch_prefix[OF assms])
  with matching_keys[OF ok, of "prefix_match orbit query"]
  show "\<exists>ks. LanguageProvider_Search orbit pl index query
                   = Returns (Some (map (map_index (entityMap li)) ks), None)
                \<and> sorted_wrt string_less ks
                \<and> set ks = {k \<in> dom (entityMap li). prefix_match orbit query k}"
    by blast
qed

theorem Search_prefix_witness:
  "''a'' \<noteq> ''_dump'' \<and> ''EN'' \<noteq> ''_dump''
   \<and> map_range (example_rk :: (string \<rightharpoonup> Country list) \<Rightarrow> string list)
   \<and> CountryProvider_Load example_rk example_countrydata (new_provider, country_vars0)
       = Returns ((3, None), example_CountryProvider, Country_maps example_countrydata)
   \<and> map_lookup (entityIndexes example_CountryProvider) ''alpha2''
       = Some \<lparr>entityMap = [''AF'' \<mapsto> [Afghanistan], ''AX'' \<mapsto> [Aland_Islands],
                             ''AL'' \<mapsto> [Albania]],
               entityKeys = [''AF'', ''AL'', ''AX'']\<rparr>
   \<and> CountryProvider_Search example_orbit example_CountryProvider ''alpha2'' ''a''
       = Returns (Some [[Afghanistan], [Albania], [Aland_Islands]], None)
   \<and> map_range (example_rk :: (string \<rightharpoonup> Language list) \<Rightarrow> string list)
   \<and> LanguageProvider_Load example_rk (Response example_body) (new_provider, language_vars0)
       = Returns ((3, None), example_LanguageProvider, Language_maps example_body)
   \<and> map_lookup (entityIndexes example_LanguageProvider) ''alpha''
       = Some \<lparr>entityMap = [''fre'' \<mapsto> [French], ''enm'' \<mapsto> [Middle_English],
                             ''eng'' \<mapsto> [English]],
               entityKeys = [''eng'', ''enm'', ''fre'']\<rparr>
   \<and> LanguageProvider_Search example_orbit example_LanguageProvider ''alpha'' ''EN''
       = Returns (Some [[English], [Middle_English]], None)"
proof -
  let ?ci = "\<lparr>entityMap = [''AF'' \<mapsto> [Afghanistan], ''AX'' \<mapsto> [Aland_Islands],
                             ''AL'' \<mapsto> [Albania]],
               entityKeys = [''AF'', ''AL'', ''AX'']\<rparr>"
  let ?li = "\<lparr>entityMap = [''fre'' \<mapsto> [French], ''enm'' \<mapsto> [Middle_English],
                             ''eng'' \<mapsto> [English]],
               entityKeys = [''eng'', ''enm'', ''fre'']\<rparr>"
  have q1: "''a'' \<noteq> ''_dump''" and q2: "''EN'' \<noteq> ''_dump''"
    by simp_all
  have country: "\<exists>ks. CountryProvider_Search example_orbit example_CountryProvider ''alpha2'' ''a''
                   = Returns (Some (map (map_index (entityMap ?ci)) ks), None)
                \<and> sorted_wrt string_less ks
                \<and> set ks = {k \<in> dom (entityMap ?ci). prefix_match example_orbit ''a'' k}"
    using Search_prefix[OF q1, of example_rk example_countrydata
        "(new_provider, country_vars0)" 3 example_CountryProvider
        "Country_maps example_countrydata" "''alpha2''" ?ci example_orbit
        example_rk "Response example_body" "(new_provider, language_vars0)" 3
        example_LanguageProvider "Language_maps example_body" ?li]
      map_range_example_rk example_Country_Load example_alpha2_index
    by blast
  have language: "\<exists>ks. LanguageProvider_Search example_orbit example_LanguageProvider ''alpha'' ''EN''
                   = Returns (Some (map (map_index (entityMap ?li)) ks), None)
                \<and> sorted_wrt string_less ks
                \<and> set ks = {k \<in> dom (entityMap ?li). prefix_match example_orbit ''EN'' k}"
    using Search_prefix[OF q2, of example_rk example_countrydata
        "(new_provider, country_vars0)" 3 example_CountryProvider
        "Country_maps example_countrydata" "''alpha''" ?ci example_orbit
        example_rk "Response example_body" "(new_provider, language_vars0)" 3
        example_LanguageProvider "Language_maps example_body" ?li]
      map_range_example_rk example_Language_Load example_alpha_index
    by blast
  from country language show ?thesis
    by (simp add: map_range_example_rk example_Country_Load example_alpha2_index
      example_Search_alpha2_a example_Language_Load example_alpha_index example_Search_alpha_EN)
qed

text \<open>
  C2. Let a provider be loaded and let \<open>index\<close> name one of its indexes. Then
  \<^verbatim>\<open>Search\<close> with the query \<^verbatim>\<open>_dump\<close> returns, without error, the groups of a key
  sequence that ascends strictly in the byte-wise order and holds exactly the keys of
  the index: every key's group once, in ascending order of the keys. (A query that
  only begins with \<^verbatim>\<open>_dump\<close> is not this query: it is a prefix query, C1.)
\<close>

theorem Search_dump:
  "(map_range rkc
      \<and> CountryProvider_Load rkc countrydata sc = Returns ((nc, None), pc, gc)
      \<and> map_lookup (entityIndexes pc) index = Some ci \<longrightarrow>
    (\<exists>ks. CountryProvider_Search orbit pc index ''_dump''
             = Returns (Some (map (map_index (entityMap ci)) ks), None)
          \<and> sorted_wrt string_less ks
          \<and> set ks = dom (entityMap ci)))
   \<and> (map_range rkl
      \<and> LanguageProvider_Load rkl get sl = Returns ((nl, None), pl, gl)
      \<and> map_lookup (entityIndexes pl) index = Some li \<longrightarrow>
    (\<exists>ks. LanguageProvider_Search orbit pl index ''_dump''
             = Returns (Some (map (map_index (entityMap li)) ks), None)
          \<and> sorted_wrt string_less ks
          \<and> set ks = dom (entityMap li)))"
proof (intro conjI impI)
  assume a: "map_range rkc
      \<and> CountryProvider_Load rkc countrydata sc = Returns ((nc, None), pc, gc)
      \<and> map_lookup (entityIndexes pc) index = Some ci"
  then have p: "pc = \<lparr>loaded = True, size = nc, entityIndexes = Some (Country_indexes rkc countrydata)\<rparr>"
    and wf: "well_formed 4 countrydata"
    using Country_Load_success by blast+
  with a have "index_ok ci"
    using Country_indexes_ok[of rkc countrydata index ci] by simp
  then have "sorted_wrt string_less (entityKeys ci)" and "set (entityKeys ci) = dom (entityMap ci)"
    by (simp_all add: index_ok_def)
  moreover from a p have "CountryProvider_Search orbit pc index ''_dump''
             = Returns (Some (map (map_index (entityMap ci)) (entityKeys ci)), None)"
    by (simp add: Country_Search_loaded doSearch_dump)
  ultimately show "\<exists>ks. CountryProvider_Search orbit pc index ''_dump''
             = Returns (Some (map (map_index (entityMap ci)) ks), None)
          \<and> sorted_wrt string_less ks
          \<and> set ks = dom (entityMap ci)"
    by blast
next
  assume a: "map_range rkl
      \<and> LanguageProvider_Load rkl get sl = Returns ((nl, None), pl, gl)
      \<and> map_lookup (entityIndexes pl) index = Some li"
  then obtain body where p: "pl = \<lparr>loaded = True, size = nl, entityIndexes = Some (Language_indexes rkl body)\<rparr>"
    and wf: "well_formed 5 body"
    using Language_Load_success by blast
  with a have "index_ok li"
    using Language_indexes_ok[of rkl body index li] by simp
  then have "sorted_wrt string_less (entityKeys li)" and "set (entityKeys li) = dom (entityMap li)"
    by (simp_all add: index_ok_def)
  moreover from a p have "LanguageProvider_Search orbit pl index ''_dump''
             = Returns (Some (map (map_index (entityMap li)) (entityKeys li)), None)"
    by (simp add: Language_Search_loaded doSearch_dump)
  ultimately show "\<exists>ks. LanguageProvider_Search orbit pl index ''_dump''
             = Returns (Some (map (map_index (entityMap li)) ks), None)
          \<and> sorted_wrt string_less ks
          \<and> set ks = dom (entityMap li)"
    by blast
qed

theorem Search_dump_witness:
  "map_range (example_rk :: (string \<rightharpoonup> Country list) \<Rightarrow> string list)
   \<and> CountryProvider_Load example_rk example_countrydata (new_provider, country_vars0)
       = Returns ((3, None), example_CountryProvider, Country_maps example_countrydata)
   \<and> map_lookup (entityIndexes example_CountryProvider) ''alpha2''
       = Some \<lparr>entityMap = [''AF'' \<mapsto> [Afghanistan], ''AX'' \<mapsto> [Aland_Islands],
                             ''AL'' \<mapsto> [Albania]],
               entityKeys = [''AF'', ''AL'', ''AX'']\<rparr>
   \<and> CountryProvider_Search example_orbit example_CountryProvider ''alpha2'' ''_dump''
       = Returns (Some [[Afghanistan], [Albania], [Aland_Islands]], None)
   \<and> map_range (example_rk :: (string \<rightharpoonup> Language list) \<Rightarrow> string list)
   \<and> LanguageProvider_Load example_rk (Response example_body) (new_provider, language_vars0)
       = Returns ((3, None), example_LanguageProvider, Language_maps example_body)
   \<and> map_lookup (entityIndexes example_LanguageProvider) ''alpha''
       = Some \<lparr>entityMap = [''fre'' \<mapsto> [French], ''enm'' \<mapsto> [Middle_English],
                             ''eng'' \<mapsto> [English]],
               entityKeys = [''eng'', ''enm'', ''fre'']\<rparr>
   \<and> LanguageProvider_Search example_orbit example_LanguageProvider ''alpha'' ''_dump''
       = Returns (Some [[English], [Middle_English], [French]], None)"
proof -
  let ?ci = "\<lparr>entityMap = [''AF'' \<mapsto> [Afghanistan], ''AX'' \<mapsto> [Aland_Islands],
                             ''AL'' \<mapsto> [Albania]],
               entityKeys = [''AF'', ''AL'', ''AX'']\<rparr>"
  let ?li = "\<lparr>entityMap = [''fre'' \<mapsto> [French], ''enm'' \<mapsto> [Middle_English],
                             ''eng'' \<mapsto> [English]],
               entityKeys = [''eng'', ''enm'', ''fre'']\<rparr>"
  note dump = Search_dump[of example_rk example_countrydata
        "(new_provider, country_vars0)" 3 example_CountryProvider
        "Country_maps example_countrydata" _ ?ci example_orbit
        example_rk "Response example_body" "(new_provider, language_vars0)" 3
        example_LanguageProvider "Language_maps example_body" ?li]
  have country: "\<exists>ks. CountryProvider_Search example_orbit example_CountryProvider ''alpha2'' ''_dump''
                   = Returns (Some (map (map_index (entityMap ?ci)) ks), None)
                \<and> sorted_wrt string_less ks \<and> set ks = dom (entityMap ?ci)"
    using dump[of "''alpha2''"] map_range_example_rk example_Country_Load example_alpha2_index
    by blast
  have language: "\<exists>ks. LanguageProvider_Search example_orbit example_LanguageProvider ''alpha'' ''_dump''
                   = Returns (Some (map (map_index (entityMap ?li)) ks), None)
                \<and> sorted_wrt string_less ks \<and> set ks = dom (entityMap ?li)"
    using dump[of "''alpha''"] map_range_example_rk example_Language_Load example_alpha_index
    by blast
  from country language show ?thesis
    by (simp add: map_range_example_rk example_Country_Load example_alpha2_index
      example_Search_alpha2_dump example_Language_Load example_alpha_index
      example_Search_alpha_dump)
qed

text \<open>
  C3. No operation panics: every failure path returns an error value. The code does
  not keep this. \<^verbatim>\<open>LanguageProvider.Search\<close> on a provider that is not loaded builds
  its error from \<^verbatim>\<open>err.Error()\<close>, and \<^verbatim>\<open>err\<close>, the named result, is nil there: the
  call panics. The theorem evaluates it on a new provider.
\<close>

theorem LanguageProvider_Search_panics:
  "LanguageProvider_Search orbit new_provider ''alpha'' ''eng'' = Panics"
  by (simp add: LanguageProvider_Search_def new_provider_def)

text \<open>
  C4. \<^verbatim>\<open>Search\<close> on a provider that is not loaded fails with an error of the kind
  "service unavailable" and no result. The code does not keep this. On a new provider
  \<^verbatim>\<open>CountryProvider.Search\<close> returns no result and an error made by \<^verbatim>\<open>errors.New\<close>,
  which has no status (its message says that it should be a 503), and
  \<^verbatim>\<open>LanguageProvider.Search\<close> panics before it returns (see C3).
\<close>

theorem Search_not_loaded:
  "CountryProvider_Search orbit new_provider ''name'' ''A''
     = Returns (None, Some (errorString
         ''this should be a 503 Service Unavailable by the time it gets to the client''))
   \<and> LanguageProvider_Search orbit new_provider ''name'' ''A'' = Panics"
  by (simp add: CountryProvider_Search_def LanguageProvider_Search_def new_provider_def)

text \<open>
  C5. Let a provider be loaded and let \<open>index\<close> name none of its indexes. Then
  \<^verbatim>\<open>Search\<close> returns the nil result and a \<^verbatim>\<open>ServiceError\<close> with the status "bad
  request" whose message is \<^verbatim>\<open>No index on\<close> followed by the name.
\<close>

theorem Search_unknown_index:
  "(loaded pc \<and> map_lookup (entityIndexes pc) index = None \<longrightarrow>
      CountryProvider_Search orbit pc index query
        = Returns (None, Some (ServiceError (''No index on '' @ index) StatusBadRequest)))
   \<and> (loaded pl \<and> map_lookup (entityIndexes pl) index = None \<longrightarrow>
      LanguageProvider_Search orbit pl index query
        = Returns (None, Some (ServiceError (''No index on '' @ index) StatusBadRequest)))"
  by (simp add: CountryProvider_Search_def LanguageProvider_Search_def)

theorem Search_unknown_index_witness:
  "loaded example_CountryProvider
   \<and> map_lookup (entityIndexes example_CountryProvider) ''nonexistent'' = None
   \<and> CountryProvider_Search example_orbit example_CountryProvider ''nonexistent'' ''x''
       = Returns (None, Some (ServiceError ''No index on nonexistent'' 400))
   \<and> loaded example_LanguageProvider
   \<and> map_lookup (entityIndexes example_LanguageProvider) ''nonexistent'' = None
   \<and> LanguageProvider_Search example_orbit example_LanguageProvider ''nonexistent'' ''x''
       = Returns (None, Some (ServiceError ''No index on nonexistent'' 400))"
proof -
  have lc: "loaded example_CountryProvider" and ll: "loaded example_LanguageProvider"
    by (simp_all add: example_CountryProvider_def example_LanguageProvider_def)
  have nc: "map_lookup (entityIndexes example_CountryProvider) ''nonexistent'' = None"
    by (simp add: example_CountryProvider_def Country_indexes_def)
  have nl: "map_lookup (entityIndexes example_LanguageProvider) ''nonexistent'' = None"
    by (simp add: example_LanguageProvider_def Language_indexes_def)
  from Search_unknown_index[of example_CountryProvider "''nonexistent''" example_orbit "''x''"
      example_LanguageProvider] lc ll nc nl
  show ?thesis
    by (simp add: StatusBadRequest_def)
qed

text \<open>
  C6. If \<^verbatim>\<open>Load\<close> on a provider that is not ready returns an error, then the input
  was malformed (the reader failed, a line had the wrong number of fields, or the
  request for the remote source failed), the count is 0, the error is a
  \<^verbatim>\<open>ServiceError\<close> with the status "service unavailable", and the provider is left
  as it was but with a newly made, empty map of indexes: it is still not ready and
  \<^verbatim>\<open>Search\<close> returns no result from it. Every malformed input makes \<^verbatim>\<open>Load\<close> return such an error; there
  is no partial success.
\<close>

theorem Load_failure:
  "(\<not> loaded pc
      \<and> CountryProvider_Load rkc countrydata (pc, gc) = Returns ((nc, Some ec), pc', gc') \<longrightarrow>
      \<not> well_formed 4 countrydata \<and> nc = 0
      \<and> (\<exists>msg. ec = ServiceError msg StatusServiceUnavailable)
      \<and> pc' = pc\<lparr>entityIndexes := Some Map.empty\<rparr> \<and> \<not> loaded pc'
      \<and> (\<forall>index query res err.
            CountryProvider_Search orbit pc' index query \<noteq> Returns (Some res, err)))
   \<and> (\<not> well_formed 4 countrydata \<longrightarrow>
      (\<exists>e p' g'. CountryProvider_Load rkc countrydata (pc, gc) = Returns ((0, Some e), p', g')))
   \<and> (\<not> loaded pl
      \<and> LanguageProvider_Load rkl get (pl, gl) = Returns ((nl, Some el), pl', gl') \<longrightarrow>
      (\<forall>body. get = Response body \<longrightarrow> \<not> well_formed 5 body) \<and> nl = 0
      \<and> (\<exists>msg. el = ServiceError msg StatusServiceUnavailable)
      \<and> pl' = pl\<lparr>entityIndexes := Some Map.empty\<rparr> \<and> \<not> loaded pl'
      \<and> (\<forall>index query res err.
            LanguageProvider_Search orbit pl' index query \<noteq> Returns (Some res, err)))
   \<and> (get = GetError m \<or> get = Response body \<and> \<not> well_formed 5 body \<longrightarrow>
      (\<exists>e p' g'. LanguageProvider_Load rkl get (pl, gl) = Returns ((0, Some e), p', g')))"
proof -
  have country: "\<not> well_formed 4 countrydata \<and> nc = 0
      \<and> (\<exists>msg. ec = ServiceError msg StatusServiceUnavailable)
      \<and> pc' = pc\<lparr>entityIndexes := Some Map.empty\<rparr> \<and> \<not> loaded pc'
      \<and> (\<forall>index query res err.
            CountryProvider_Search orbit pc' index query \<noteq> Returns (Some res, err))"
    if a: "\<not> loaded pc
      \<and> CountryProvider_Load rkc countrydata (pc, gc) = Returns ((nc, Some ec), pc', gc')"
  proof -
    from a have wf: "\<not> well_formed 4 countrydata"
      using Country_Load_error by blast
    from Country_Load_fail[OF wf, of rkc pc gc] a
    have r: "nc = 0" "\<exists>msg. ec = ServiceError msg StatusServiceUnavailable"
      "pc' = pc\<lparr>entityIndexes := Some Map.empty\<rparr>"
      by auto
    with a have nl: "\<not> loaded pc'"
      by simp
    then have "\<forall>index query res err.
              CountryProvider_Search orbit pc' index query \<noteq> Returns (Some res, err)"
      by (simp add: CountryProvider_Search_def)
    with wf r nl show ?thesis
      by blast
  qed
  have country_fails:
    "\<exists>e p' g'. CountryProvider_Load rkc countrydata (pc, gc) = Returns ((0, Some e), p', g')"
    if "\<not> well_formed 4 countrydata"
    using Country_Load_fail[OF that, of rkc pc gc] by blast
  have language: "(\<forall>body. get = Response body \<longrightarrow> \<not> well_formed 5 body) \<and> nl = 0
      \<and> (\<exists>msg. el = ServiceError msg StatusServiceUnavailable)
      \<and> pl' = pl\<lparr>entityIndexes := Some Map.empty\<rparr> \<and> \<not> loaded pl'
      \<and> (\<forall>index query res err.
            LanguageProvider_Search orbit pl' index query \<noteq> Returns (Some res, err))"
    if a: "\<not> loaded pl
      \<and> LanguageProvider_Load rkl get (pl, gl) = Returns ((nl, Some el), pl', gl')"
  proof -
    from a have cause:
      "get = GetError (case get of GetError m \<Rightarrow> m | Response body \<Rightarrow> [])
         \<or> get = Response (case get of GetError m \<Rightarrow> [] | Response body \<Rightarrow> body)
           \<and> \<not> well_formed 5 (case get of GetError m \<Rightarrow> [] | Response body \<Rightarrow> body)"
      using Language_Load_error by blast
    then have wf: "\<forall>body. get = Response body \<longrightarrow> \<not> well_formed 5 body"
      by auto
    from Language_Load_fail[OF cause, of rkl pl gl] a
    have r: "nl = 0" "\<exists>msg. el = ServiceError msg StatusServiceUnavailable"
      "pl' = pl\<lparr>entityIndexes := Some Map.empty\<rparr>"
      by auto
    with a have nl: "\<not> loaded pl'"
      by simp
    then have "\<forall>index query res err.
              LanguageProvider_Search orbit pl' index query \<noteq> Returns (Some res, err)"
      by (simp add: LanguageProvider_Search_def)
    with wf r nl show ?thesis
      by blast
  qed
  have language_fails:
    "\<exists>e p' g'. LanguageProvider_Load rkl get (pl, gl) = Returns ((0, Some e), p', g')"
    if "get = GetError m \<or> get = Response body \<and> \<not> well_formed 5 body"
    using Language_Load_fail[OF that, of rkl pl gl] by blast
  from country country_fails language language_fails show ?thesis
    by blast
qed

theorem Load_failure_witness:
  "\<not> loaded (new_provider :: CountryProvider)
   \<and> \<not> well_formed 4 example_short_line
   \<and> CountryProvider_Load example_rk example_short_line (new_provider, country_vars0)
       = Returns ((0, Some (ServiceError ''wrong number of fields in line'' 503)),
           \<lparr>loaded = False, size = 0, entityIndexes = Some Map.empty\<rparr>,
           \<lparr>country_vars.englishNameMap = [''Afghanistan'' \<mapsto> [Afghanistan]],
            alpha2Map = [''AF'' \<mapsto> [Afghanistan]], alpha3Map = [''AFG'' \<mapsto> [Afghanistan]],
            numericMap = [''004'' \<mapsto> [Afghanistan]]\<rparr>)
   \<and> (\<forall>index query res err.
         CountryProvider_Search example_orbit
           \<lparr>loaded = False, size = 0, entityIndexes = Some Map.empty\<rparr> index query
         \<noteq> Returns (Some res, err))
   \<and> \<not> loaded (new_provider :: LanguageProvider)
   \<and> LanguageProvider_Load example_rk (GetError ''connection refused'')
         (new_provider, language_vars0)
       = Returns ((0, Some (ServiceError ''connection refused'' 503)),
           \<lparr>loaded = False, size = 0, entityIndexes = Some Map.empty\<rparr>, language_vars0)
   \<and> (\<forall>index query res err.
         LanguageProvider_Search example_orbit
           \<lparr>loaded = False, size = 0, entityIndexes = Some Map.empty\<rparr> index query
         \<noteq> Returns (Some res, err))"
proof -
  have nl: "\<not> loaded (new_provider :: 'e provider)" for dummy :: 'e
    by (simp add: new_provider_def)
  have wf: "\<not> well_formed 4 example_short_line"
    by (simp add: well_formed_def example_short_line_def)
  note failure = Load_failure[of new_provider example_rk example_short_line country_vars0 0
      "ServiceError ''wrong number of fields in line'' 503"
      "\<lparr>loaded = False, size = 0, entityIndexes = Some Map.empty\<rparr>"
      "\<lparr>country_vars.englishNameMap = [''Afghanistan'' \<mapsto> [Afghanistan]],
        alpha2Map = [''AF'' \<mapsto> [Afghanistan]], alpha3Map = [''AFG'' \<mapsto> [Afghanistan]],
        numericMap = [''004'' \<mapsto> [Afghanistan]]\<rparr>" example_orbit
      new_provider example_rk "GetError ''connection refused''" language_vars0 0
      "ServiceError ''connection refused'' 503"
      "\<lparr>loaded = False, size = 0, entityIndexes = Some Map.empty\<rparr>" language_vars0
      "''connection refused''" "[]"]
  from failure nl example_short_line_Load
  have country: "\<forall>index query res err.
      CountryProvider_Search example_orbit
        \<lparr>loaded = False, size = 0, entityIndexes = Some Map.empty\<rparr> index query
      \<noteq> Returns (Some res, err)"
    by blast
  from failure nl example_GetError_Load
  have language: "\<forall>index query res err.
      LanguageProvider_Search example_orbit
        \<lparr>loaded = False, size = 0, entityIndexes = Some Map.empty\<rparr> index query
      \<noteq> Returns (Some res, err)"
    by blast
  from country language wf show ?thesis
    by (simp add: nl example_short_line_Load example_GetError_Load)
qed

text \<open>
  C7. For every key-to-group mapping passed to \<^verbatim>\<open>storeData\<close> on a provider whose map
  of indexes has been made (as \<^verbatim>\<open>Load\<close> makes it before its calls), whatever the
  order in which the runtime ranges over the mapping, the call does not panic and
  stores the mapping with a key sequence in which each key of the mapping occurs
  exactly once, no other string occurs, and the keys ascend strictly in the byte-wise
  order of strings. (On a provider whose map of indexes is nil the call panics and
  stores nothing: lemma \<open>storeData_nil_map\<close>.)
\<close>

theorem storeData_sorted_keys:
  assumes "map_range rk" and "finite (dom m)" and "entityIndexes p = Some indexes"
  shows "\<exists>ci. storeData rk p s m = Returns (p\<lparr>entityIndexes := Some (indexes(s \<mapsto> ci))\<rparr>)
            \<and> entityMap ci = m
            \<and> (\<forall>k. count_list (entityKeys ci) k = (if k \<in> dom m then 1 else 0))
            \<and> sorted_wrt string_less (entityKeys ci)"
proof -
  have ok: "index_ok (stored_index rk m)"
    by (rule index_ok_stored[OF assms(1,2)])
  then have "\<forall>k. count_list (entityKeys (stored_index rk m)) k = (if k \<in> dom m then 1 else 0)"
    by (simp add: index_ok_def count_list_distinct stored_index_def)
  moreover from ok have "sorted_wrt string_less (entityKeys (stored_index rk m))"
    by (simp add: index_ok_def)
  moreover have "entityMap (stored_index rk m) = m"
    by (simp add: stored_index_def)
  moreover have "storeData rk p s m
      = Returns (p\<lparr>entityIndexes := Some (indexes(s \<mapsto> stored_index rk m))\<rparr>)"
    using storeData_stored[OF assms(1,2), of p s] assms(3) by simp
  ultimately show ?thesis
    by blast
qed

theorem storeData_sorted_keys_witness:
  "map_range (example_rk :: (string \<rightharpoonup> Country list) \<Rightarrow> string list)
   \<and> finite (dom [''AX'' \<mapsto> [Aland_Islands], ''AF'' \<mapsto> [Afghanistan], ''AL'' \<mapsto> [Albania]])
   \<and> entityIndexes \<lparr>loaded = False, size = 0, entityIndexes = Some Map.empty\<rparr> = Some Map.empty
   \<and> example_rk [''AX'' \<mapsto> [Aland_Islands], ''AF'' \<mapsto> [Afghanistan], ''AL'' \<mapsto> [Albania]]
        = [''AX'', ''AL'', ''AF'']
   \<and> storeData example_rk \<lparr>loaded = False, size = 0, entityIndexes = Some Map.empty\<rparr> ''alpha2''
        [''AX'' \<mapsto> [Aland_Islands], ''AF'' \<mapsto> [Afghanistan], ''AL'' \<mapsto> [Albania]]
      = Returns \<lparr>loaded = False, size = 0, entityIndexes = Some [''alpha2'' \<mapsto>
          \<lparr>entityMap = [''AX'' \<mapsto> [Aland_Islands], ''AF'' \<mapsto> [Afghanistan], ''AL'' \<mapsto> [Albania]],
           entityKeys = [''AF'', ''AL'', ''AX'']\<rparr>]\<rparr>
   \<and> (\<forall>k. count_list [''AF'', ''AL'', ''AX''] k = (if k \<in> {''AX'', ''AF'', ''AL''} then 1 else 0))
   \<and> sorted_wrt string_less [''AF'', ''AL'', ''AX'']"
proof -
  let ?m = "[''AX'' \<mapsto> [Aland_Islands], ''AF'' \<mapsto> [Afghanistan], ''AL'' \<mapsto> [Albania]]"
  let ?ci = "\<lparr>entityMap = ?m, entityKeys = [''AF'', ''AL'', ''AX'']\<rparr>"
  let ?p = "\<lparr>loaded = False, size = 0, entityIndexes = Some Map.empty\<rparr> :: CountryProvider"
  have fin: "finite (dom ?m)"
    by simp
  have made: "entityIndexes ?p = Some Map.empty"
    by simp
  have order: "example_rk ?m = [''AX'', ''AL'', ''AF'']"
    by (simp add: example_rk_def)
  have run: "storeData example_rk ?p ''alpha2'' ?m
      = Returns \<lparr>loaded = False, size = 0, entityIndexes = Some [''alpha2'' \<mapsto> ?ci]\<rparr>"
    by (simp add: storeData_def order len_map_def sort_Strings_def map_assign_def)
  from storeData_sorted_keys[OF map_range_example_rk fin made, of "''alpha2''"]
  obtain ci where st: "storeData example_rk ?p ''alpha2'' ?m
        = Returns (?p\<lparr>entityIndexes := Some [''alpha2'' \<mapsto> ci]\<rparr>)"
    and once: "\<forall>k. count_list (entityKeys ci) k = (if k \<in> dom ?m then 1 else 0)"
    and asc: "sorted_wrt string_less (entityKeys ci)"
    by blast
  from st run have "[''alpha2'' \<mapsto> ci] ''alpha2'' = [''alpha2'' \<mapsto> ?ci] ''alpha2''"
    by simp
  then have "ci = ?ci"
    by simp
  with once asc have "\<forall>k. count_list [''AF'', ''AL'', ''AX''] k = (if k \<in> dom ?m then 1 else 0)"
    and "sorted_wrt string_less [''AF'', ''AL'', ''AX'']"
    by simp_all
  moreover have "dom ?m = {''AX'', ''AF'', ''AL''}"
    by auto
  ultimately show ?thesis
    using map_range_example_rk fin order run by simp
qed

text \<open>
  C8. Let a provider be loaded and let \<open>index\<close> name one of its indexes. Then
  \<^verbatim>\<open>Search\<close> with the empty query returns what \<^verbatim>\<open>Search\<close> with the query
  \<^verbatim>\<open>_dump\<close> returns: the groups of all keys of the index, in the order of its key
  sequence.
\<close>

theorem Search_empty_query:
  "(loaded pc \<and> map_lookup (entityIndexes pc) index = Some ci \<longrightarrow>
      CountryProvider_Search orbit pc index [] = CountryProvider_Search orbit pc index ''_dump''
      \<and> CountryProvider_Search orbit pc index []
          = Returns (Some (map (map_index (entityMap ci)) (entityKeys ci)), None))
   \<and> (loaded pl \<and> map_lookup (entityIndexes pl) index = Some li \<longrightarrow>
      LanguageProvider_Search orbit pl index [] = LanguageProvider_Search orbit pl index ''_dump''
      \<and> LanguageProvider_Search orbit pl index []
          = Returns (Some (map (map_index (entityMap li)) (entityKeys li)), None))"
  by (simp add: Country_Search_loaded Language_Search_loaded doSearch_dump doSearch_empty)

theorem Search_empty_query_witness:
  "loaded example_CountryProvider
   \<and> map_lookup (entityIndexes example_CountryProvider) ''alpha2''
       = Some \<lparr>entityMap = [''AF'' \<mapsto> [Afghanistan], ''AX'' \<mapsto> [Aland_Islands],
                             ''AL'' \<mapsto> [Albania]],
               entityKeys = [''AF'', ''AL'', ''AX'']\<rparr>
   \<and> CountryProvider_Search example_orbit example_CountryProvider ''alpha2'' []
       = CountryProvider_Search example_orbit example_CountryProvider ''alpha2'' ''_dump''
   \<and> CountryProvider_Search example_orbit example_CountryProvider ''alpha2'' []
       = Returns (Some [[Afghanistan], [Albania], [Aland_Islands]], None)
   \<and> loaded example_LanguageProvider
   \<and> map_lookup (entityIndexes example_LanguageProvider) ''alpha''
       = Some \<lparr>entityMap = [''fre'' \<mapsto> [French], ''enm'' \<mapsto> [Middle_English],
                             ''eng'' \<mapsto> [English]],
               entityKeys = [''eng'', ''enm'', ''fre'']\<rparr>
   \<and> LanguageProvider_Search example_orbit example_LanguageProvider ''alpha'' []
       = LanguageProvider_Search example_orbit example_LanguageProvider ''alpha'' ''_dump''
   \<and> LanguageProvider_Search example_orbit example_LanguageProvider ''alpha'' []
       = Returns (Some [[English], [Middle_English], [French]], None)"
proof -
  let ?ci = "\<lparr>entityMap = [''AF'' \<mapsto> [Afghanistan], ''AX'' \<mapsto> [Aland_Islands],
                             ''AL'' \<mapsto> [Albania]],
               entityKeys = [''AF'', ''AL'', ''AX'']\<rparr>"
  let ?li = "\<lparr>entityMap = [''fre'' \<mapsto> [French], ''enm'' \<mapsto> [Middle_English],
                             ''eng'' \<mapsto> [English]],
               entityKeys = [''eng'', ''enm'', ''fre'']\<rparr>"
  have lc: "loaded example_CountryProvider" and ll: "loaded example_LanguageProvider"
    by (simp_all add: example_CountryProvider_def example_LanguageProvider_def)
  note empty = Search_empty_query[of example_CountryProvider _ ?ci example_orbit
      example_LanguageProvider ?li]
  from empty[of "''alpha2''"] lc example_alpha2_index
  have country: "CountryProvider_Search example_orbit example_CountryProvider ''alpha2'' []
       = CountryProvider_Search example_orbit example_CountryProvider ''alpha2'' ''_dump''"
    by blast
  from empty[of "''alpha''"] ll example_alpha_index
  have language: "LanguageProvider_Search example_orbit example_LanguageProvider ''alpha'' []
       = LanguageProvider_Search example_orbit example_LanguageProvider ''alpha'' ''_dump''"
    by blast
  from country language lc ll show ?thesis
    by (simp add: example_alpha2_index example_alpha_index example_Search_alpha2_dump
      example_Search_alpha_dump)
qed

text \<open>
  C9. \<^verbatim>\<open>Search\<close> assigns to no field of the provider or of its indexes, so the model
  gives it no state to return: two calls on one loaded provider apply one function to
  one state, and what they return depends on the loaded state, the index name and the
  query only. What differs from run to run is the order in which \<^verbatim>\<open>storeData\<close>
  ranges over a map. It does not reach the loaded state: two loads of the same data,
  under any two iteration orders and from any two earlier states, leave the same
  provider, and so every \<^verbatim>\<open>Search\<close> returns the same result in the same order.
\<close>

theorem Search_deterministic:
  "(map_range rkc1 \<and> map_range rkc2
      \<and> CountryProvider_Load rkc1 countrydata sc1 = Returns ((nc1, None), pc1, gc1)
      \<and> CountryProvider_Load rkc2 countrydata sc2 = Returns ((nc2, None), pc2, gc2) \<longrightarrow>
      pc1 = pc2
      \<and> CountryProvider_Search orbit pc1 index query = CountryProvider_Search orbit pc2 index query)
   \<and> (map_range rkl1 \<and> map_range rkl2
      \<and> LanguageProvider_Load rkl1 get sl1 = Returns ((nl1, None), pl1, gl1)
      \<and> LanguageProvider_Load rkl2 get sl2 = Returns ((nl2, None), pl2, gl2) \<longrightarrow>
      pl1 = pl2
      \<and> LanguageProvider_Search orbit pl1 index query
          = LanguageProvider_Search orbit pl2 index query)"
proof -
  have country: "pc1 = pc2"
    if a: "map_range rkc1 \<and> map_range rkc2
      \<and> CountryProvider_Load rkc1 countrydata sc1 = Returns ((nc1, None), pc1, gc1)
      \<and> CountryProvider_Load rkc2 countrydata sc2 = Returns ((nc2, None), pc2, gc2)"
  proof -
    from a have l1: "CountryProvider_Load rkc1 countrydata sc1 = Returns ((nc1, None), pc1, gc1)"
      and l2: "CountryProvider_Load rkc2 countrydata sc2 = Returns ((nc2, None), pc2, gc2)"
      and r1: "map_range rkc1" and r2: "map_range rkc2"
      by simp_all
    note s1 = Country_Load_success[OF r1 l1] and s2 = Country_Load_success[OF r2 l2]
    from s1(2) s2(2) have "nc1 = nc2"
      by simp
    moreover have "Country_indexes rkc1 countrydata = Country_indexes rkc2 countrydata"
      by (rule Country_indexes_any_order[OF r1 r2 s1(1)])
    ultimately show ?thesis
      using s1(3) s2(3) by simp
  qed
  have language: "pl1 = pl2"
    if a: "map_range rkl1 \<and> map_range rkl2
      \<and> LanguageProvider_Load rkl1 get sl1 = Returns ((nl1, None), pl1, gl1)
      \<and> LanguageProvider_Load rkl2 get sl2 = Returns ((nl2, None), pl2, gl2)"
  proof -
    from a have l1: "LanguageProvider_Load rkl1 get sl1 = Returns ((nl1, None), pl1, gl1)"
      and l2: "LanguageProvider_Load rkl2 get sl2 = Returns ((nl2, None), pl2, gl2)"
      and r1: "map_range rkl1" and r2: "map_range rkl2"
      by simp_all
    from Language_Load_success[OF r1 l1] obtain body where
      b1: "get = Response body" "well_formed 5 body" "nl1 = card (key_set 0 body)"
        "pl1 = \<lparr>loaded = True, size = nl1, entityIndexes = Some (Language_indexes rkl1 body)\<rparr>"
      by blast
    from Language_Load_success[OF r2 l2] b1(1) have
      b2: "nl2 = card (key_set 0 body)"
        "pl2 = \<lparr>loaded = True, size = nl2, entityIndexes = Some (Language_indexes rkl2 body)\<rparr>"
      by auto
    have "Language_indexes rkl1 body = Language_indexes rkl2 body"
      by (rule Language_indexes_any_order[OF r1 r2 b1(2)])
    with b1 b2 show ?thesis
      by simp
  qed
  from country language show ?thesis
    by auto
qed

theorem Search_deterministic_witness:
  "map_range (example_rk :: (string \<rightharpoonup> Country list) \<Rightarrow> string list)
   \<and> map_range (example_rk_ascending :: (string \<rightharpoonup> Country list) \<Rightarrow> string list)
   \<and> CountryProvider_Load example_rk example_countrydata (new_provider, country_vars0)
       = Returns ((3, None), example_CountryProvider, Country_maps example_countrydata)
   \<and> CountryProvider_Load example_rk_ascending example_countrydata (new_provider, country_vars0)
       = Returns ((3, None), example_CountryProvider, Country_maps example_countrydata)
   \<and> map_range (example_rk :: (string \<rightharpoonup> Language list) \<Rightarrow> string list)
   \<and> map_range (example_rk_ascending :: (string \<rightharpoonup> Language list) \<Rightarrow> string list)
   \<and> LanguageProvider_Load example_rk (Response example_body) (new_provider, language_vars0)
       = Returns ((3, None), example_LanguageProvider, Language_maps example_body)
   \<and> LanguageProvider_Load example_rk_ascending (Response example_body)
         (new_provider, language_vars0)
       = Returns ((3, None), example_LanguageProvider, Language_maps example_body)"
proof -
  note same = Search_deterministic[of example_rk example_rk_ascending example_countrydata
      "(new_provider, country_vars0)" 3 example_CountryProvider "Country_maps example_countrydata"
      "(new_provider, country_vars0)" 3
      "\<lparr>loaded = True, size = 3,
         entityIndexes = Some (Country_indexes example_rk_ascending example_countrydata)\<rparr>"
      "Country_maps example_countrydata" example_orbit "''name''" "''A''"
      example_rk example_rk_ascending "Response example_body"
      "(new_provider, language_vars0)" 3 example_LanguageProvider "Language_maps example_body"
      "(new_provider, language_vars0)" 3
      "\<lparr>loaded = True, size = 3,
         entityIndexes = Some (Language_indexes example_rk_ascending example_body)\<rparr>"
      "Language_maps example_body"]
  from same map_range_example_rk map_range_example_rk_ascending
    example_Country_Load example_Country_Load_ascending
  have country: "example_CountryProvider = \<lparr>loaded = True, size = 3,
         entityIndexes = Some (Country_indexes example_rk_ascending example_countrydata)\<rparr>"
    by blast
  from same map_range_example_rk map_range_example_rk_ascending
    example_Language_Load example_Language_Load_ascending
  have language: "example_LanguageProvider = \<lparr>loaded = True, size = 3,
         entityIndexes = Some (Language_indexes example_rk_ascending example_body)\<rparr>"
    by blast
  show ?thesis
    by (simp add: map_range_example_rk map_range_example_rk_ascending example_Country_Load
        example_Country_Load_ascending example_Language_Load example_Language_Load_ascending
        country[symmetric] language[symmetric])
qed

text \<open>
  C10. When \<^verbatim>\<open>Load\<close> returns no error, its count is the number of distinct keys
  of the primary index (the index \<^verbatim>\<open>name\<close> of the country provider, the index
  \<^verbatim>\<open>alpha\<close> of the language provider): the number of keys of the index's map, the
  length of its key sequence, and the number of different values of the key field in
  the lines read. It is not the number of lines: two lines with one key count once.
\<close>

theorem Load_count:
  "(map_range rkc
      \<and> CountryProvider_Load rkc countrydata sc = Returns ((nc, None), pc, gc) \<longrightarrow>
      (\<exists>ci. map_lookup (entityIndexes pc) ''name'' = Some ci
         \<and> nc = card (dom (entityMap ci)) \<and> nc = length (entityKeys ci)
         \<and> dom (entityMap ci) = key_set 0 countrydata))
   \<and> (map_range rkl
      \<and> LanguageProvider_Load rkl (Response body) sl = Returns ((nl, None), pl, gl) \<longrightarrow>
      (\<exists>li. map_lookup (entityIndexes pl) ''alpha'' = Some li
         \<and> nl = card (dom (entityMap li)) \<and> nl = length (entityKeys li)
         \<and> dom (entityMap li) = key_set 0 body))"
proof -
  have keys: "length (entityKeys ci) = card (dom (entityMap ci))" if "index_ok ci"
    for ci :: "'e index"
    using that distinct_card[of "entityKeys ci"] by (simp add: index_ok_def)
  have country: "\<exists>ci. map_lookup (entityIndexes pc) ''name'' = Some ci
         \<and> nc = card (dom (entityMap ci)) \<and> nc = length (entityKeys ci)
         \<and> dom (entityMap ci) = key_set 0 countrydata"
    if a: "map_range rkc
      \<and> CountryProvider_Load rkc countrydata sc = Returns ((nc, None), pc, gc)"
  proof -
    from a have r: "map_range rkc"
      and l: "CountryProvider_Load rkc countrydata sc = Returns ((nc, None), pc, gc)"
      by simp_all
    note s = Country_Load_success[OF r l]
    let ?ci = "stored_index rkc (country_vars.englishNameMap (Country_maps countrydata))"
    from s(3) have ix: "map_lookup (entityIndexes pc) ''name'' = Some ?ci"
      by (simp add: Country_indexes_def)
    have d: "dom (entityMap ?ci) = key_set 0 countrydata"
      by (simp add: stored_index_def Country_maps_dom[OF s(1)])
    have "index_ok ?ci"
      using Country_indexes_ok[OF r s(1), of "''name''" ?ci] by (simp add: Country_indexes_def)
    from keys[OF this] d s(2) ix show ?thesis
      by simp
  qed
  have language: "\<exists>li. map_lookup (entityIndexes pl) ''alpha'' = Some li
         \<and> nl = card (dom (entityMap li)) \<and> nl = length (entityKeys li)
         \<and> dom (entityMap li) = key_set 0 body"
    if a: "map_range rkl
      \<and> LanguageProvider_Load rkl (Response body) sl = Returns ((nl, None), pl, gl)"
  proof -
    from a have r: "map_range rkl"
      and l: "LanguageProvider_Load rkl (Response body) sl = Returns ((nl, None), pl, gl)"
      by simp_all
    from Language_Load_success[OF r l] have wf: "well_formed 5 body"
      and n: "nl = card (key_set 0 body)"
      and p: "pl = \<lparr>loaded = True, size = nl, entityIndexes = Some (Language_indexes rkl body)\<rparr>"
      by auto
    let ?li = "stored_index rkl (alphaMap (Language_maps body))"
    from p have ix: "map_lookup (entityIndexes pl) ''alpha'' = Some ?li"
      by (simp add: Language_indexes_def)
    have d: "dom (entityMap ?li) = key_set 0 body"
      by (simp add: stored_index_def Language_maps_dom[OF wf])
    have "index_ok ?li"
      using Language_indexes_ok[OF r wf, of "''alpha''" ?li] by (simp add: Language_indexes_def)
    from keys[OF this] d n ix show ?thesis
      by simp
  qed
  from country language show ?thesis
    by blast
qed

theorem Load_count_witness:
  "map_range (example_rk :: (string \<rightharpoonup> Country list) \<Rightarrow> string list)
   \<and> length example_same_name = 2
   \<and> CountryProvider_Load example_rk example_same_name (new_provider, country_vars0)
       = Returns ((1, None),
           \<lparr>loaded = True, size = 1,
             entityIndexes = Some (Country_indexes example_rk example_same_name)\<rparr>,
           Country_maps example_same_name)
   \<and> Country_indexes example_rk example_same_name ''name''
       = Some \<lparr>entityMap = [''Congo'' \<mapsto>
                 [\<lparr>Country.EnglishName = ''Congo'', Alpha2Code = ''CG'', Alpha3Code = ''COG'',
                    NumericCode = ''178''\<rparr>,
                  \<lparr>Country.EnglishName = ''Congo'', Alpha2Code = ''CD'', Alpha3Code = ''COD'',
                    NumericCode = ''180''\<rparr>]],
               entityKeys = [''Congo'']\<rparr>
   \<and> key_set 0 example_same_name = {''Congo''}
   \<and> map_range (example_rk :: (string \<rightharpoonup> Language list) \<Rightarrow> string list)
   \<and> length example_same_code = 2
   \<and> LanguageProvider_Load example_rk (Response example_same_code)
         (new_provider, language_vars0)
       = Returns ((1, None),
           \<lparr>loaded = True, size = 1,
             entityIndexes = Some (Language_indexes example_rk example_same_code)\<rparr>,
           Language_maps example_same_code)
   \<and> Language_indexes example_rk example_same_code ''alpha''
       = Some \<lparr>entityMap = [''eng'' \<mapsto>
                 [English,
                  \<lparr>Alpha3bibliographic = ''eng'', Alpha3terminologic = [], Alpha2 = [],
                    Language.EnglishName = ''Old English'', FrenchName = []\<rparr>]],
               entityKeys = [''eng'']\<rparr>
   \<and> key_set 0 example_same_code = {''eng''}"
proof -
  note count = Load_count[of example_rk example_same_name "(new_provider, country_vars0)" 1
      "\<lparr>loaded = True, size = 1, entityIndexes = Some (Country_indexes example_rk example_same_name)\<rparr>"
      "Country_maps example_same_name"
      example_rk example_same_code "(new_provider, language_vars0)" 1
      "\<lparr>loaded = True, size = 1, entityIndexes = Some (Language_indexes example_rk example_same_code)\<rparr>"
      "Language_maps example_same_code"]
  have rc: "map_range (example_rk :: (string \<rightharpoonup> Country list) \<Rightarrow> string list)"
    and rl: "map_range (example_rk :: (string \<rightharpoonup> Language list) \<Rightarrow> string list)"
    by (rule map_range_example_rk)+
  from count rc example_same_name_Load
  have "\<exists>ci. map_lookup (entityIndexes \<lparr>loaded = True, size = 1,
          entityIndexes = Some (Country_indexes example_rk example_same_name)\<rparr>) ''name'' = Some ci
      \<and> dom (entityMap ci) = key_set 0 example_same_name"
    by blast
  then have country: "\<exists>ci. Country_indexes example_rk example_same_name ''name'' = Some ci
      \<and> dom (entityMap ci) = key_set 0 example_same_name"
    by simp
  from count rl example_same_code_Load
  have "\<exists>li. map_lookup (entityIndexes \<lparr>loaded = True, size = 1,
          entityIndexes = Some (Language_indexes example_rk example_same_code)\<rparr>) ''alpha'' = Some li
      \<and> dom (entityMap li) = key_set 0 example_same_code"
    by blast
  then have language: "\<exists>li. Language_indexes example_rk example_same_code ''alpha'' = Some li
      \<and> dom (entityMap li) = key_set 0 example_same_code"
    by simp
  from country have kc: "key_set 0 example_same_name = {''Congo''}"
    by (auto simp: example_same_name_index)
  from language have kl: "key_set 0 example_same_code = {''eng''}"
    by (auto simp: example_same_code_index)
  show ?thesis
    by (simp add: kc kl map_range_example_rk example_same_name_Load example_same_code_Load
        example_same_name_index example_same_code_index)
       (simp add: example_same_name_def example_same_code_def)
qed

end
